theory Spec2Isabelle
  imports Main "HOL-Library.Log_Nat"
begin

section \<open>Python values\<close>

text \<open>
  The driver is the Python class \<open>AzMountPro\<close> of \<open>LD_iOptron.py\<close>. Every exception the
  code can raise is a value of \<open>error\<close>; a method that can raise returns \<open>error + 'a\<close>
  (\<open>Inl\<close> the exception). The source has no exception classes of its own: a failed
  \<open>assert\<close> is Python's \<open>AssertionError\<close>, a missing dictionary key is \<open>KeyError\<close>, and so on.
\<close>

datatype error =
    AssertionError
  | ValueError
  | KeyError
  | IndexError
  | OverflowError
  | UnicodeDecodeError
  | ParserError

subsection \<open>Strings\<close>

text \<open>
  A \<open>string\<close> is a list of 8-bit characters. The protocol is ASCII, so a decoded reply
  and the bytes on the wire are the same list.
\<close>

definition getitem :: "'a list \<Rightarrow> nat \<Rightarrow> error + 'a" where
  \<comment> \<open>\<open>s[i]\<close> for a literal index \<open>i \<ge> 0\<close>\<close>
  "getitem s i = (if i < length s then Inr (s ! i) else Inl IndexError)"

definition rjust :: "nat \<Rightarrow> char \<Rightarrow> string \<Rightarrow> string" where
  \<comment> \<open>\<open>s.rjust(w, c)\<close>\<close>
  "rjust w c s = replicate (w - length s) c @ s"

definition dict_get :: "('k \<times> 'v) list \<Rightarrow> 'k \<Rightarrow> error + 'v" where
  \<comment> \<open>\<open>d[k]\<close> on a dictionary literal\<close>
  "dict_get d k = (case map_of d k of None \<Rightarrow> Inl KeyError | Some v \<Rightarrow> Inr v)"

definition is_digit :: "char \<Rightarrow> bool" where
  "is_digit c = (48 \<le> (of_char c :: nat) \<and> (of_char c :: nat) \<le> 57)"

definition digit_val :: "char \<Rightarrow> nat" where
  "digit_val c = of_char c - 48"

definition is_space :: "char \<Rightarrow> bool" where
  \<comment> \<open>the ASCII characters \<open>int()\<close> strips: tab, LF, VT, FF, CR, space\<close>
  "is_space c = (c \<in> set [CHR 0x09, CHR 0x0A, CHR 0x0B, CHR 0x0C, CHR 0x0D, CHR 0x20])"

definition strip :: "string \<Rightarrow> string" where
  "strip s = rev (dropWhile is_space (rev (dropWhile is_space s)))"

text \<open>
  \<open>int(s)\<close> on an ASCII string, base 10: surrounding whitespace, one optional sign, then
  digits in which single underscores may separate digits. Anything else is a
  \<open>ValueError\<close>.
\<close>

fun digits_from :: "nat \<Rightarrow> string \<Rightarrow> nat option" where
  "digits_from acc [] = Some acc"
| "digits_from acc (c # cs) =
     (if is_digit c then digits_from (10 * acc + digit_val c) cs
      else if c = CHR ''_'' then
        (case cs of
           [] \<Rightarrow> None
         | d # ds \<Rightarrow> if is_digit d then digits_from (10 * acc + digit_val d) ds else None)
      else None)"

definition digits :: "string \<Rightarrow> nat option" where
  "digits s =
     (case s of
        [] \<Rightarrow> None
      | c # cs \<Rightarrow> if is_digit c then digits_from (digit_val c) cs else None)"

definition py_int :: "string \<Rightarrow> error + int" where
  "py_int s =
     (let t = strip s;
          neg = (case t of [] \<Rightarrow> False | c # _ \<Rightarrow> c = CHR ''-'');
          body = (case t of [] \<Rightarrow> [] | c # cs \<Rightarrow> if c = CHR ''-'' \<or> c = CHR ''+'' then cs else t)
      in case digits body of
           None \<Rightarrow> Inl ValueError
         | Some n \<Rightarrow> Inr (if neg then - int n else int n))"

text \<open>\<open>str(n)\<close> for an integer: the decimal digits, after a minus sign when negative.\<close>

fun str_nat :: "nat \<Rightarrow> string" where
  "str_nat n =
     (if n < 10 then [''0123456789'' ! n]
      else str_nat (n div 10) @ [''0123456789'' ! (n mod 10)])"

declare str_nat.simps [simp del]

definition str_int :: "int \<Rightarrow> string" where
  "str_int i = (if i < 0 then CHR ''-'' # str_nat (nat (- i)) else str_nat (nat i))"

subsection \<open>Numbers\<close>

text \<open>
  An angle passed by a caller is a Python \<open>int\<close> or a Python \<open>float\<close>. A float is an
  IEEE 754 double: a rational with a 53-bit significand, an infinity or a NaN (the sign
  of zero is not kept: no operation below can tell \<open>-0.0\<close> from \<open>0.0\<close>). Every float
  operation computes the exact rational result and rounds it to the nearest double, ties
  to even; a result beyond the largest double is an infinity.
\<close>

datatype pyfloat = Finite rat | PosInf | NegInf | NaN

datatype pynum = PyInt int | PyFloat pyfloat

definition ilog2 :: "rat \<Rightarrow> int" where
  \<comment> \<open>for \<open>q \<noteq> 0\<close>, the exponent \<open>k\<close> with \<open>2\<^sup>k \<le> \<bar>q\<bar> < 2\<^sup>k\<^sup>+\<^sup>1\<close>\<close>
  "ilog2 q =
     (let (a, b) = quotient_of \<bar>q\<bar>;
          k = bitlen a - bitlen b
      in if 2 powi k \<le> \<bar>q\<bar> then k else k - 1)"

definition round_half_even :: "rat \<Rightarrow> int" where
  "round_half_even x =
     (let f = \<lfloor>x\<rfloor>; d = x - of_int f
      in if d < 1 / 2 then f
         else if 1 / 2 < d then f + 1
         else if even f then f else f + 1)"

definition round_double :: "rat \<Rightarrow> pyfloat" where
  \<comment> \<open>the unit in the last place is \<open>2\<^sup>e\<^sup>-\<^sup>5\<^sup>2\<close>, with \<open>e\<close> never below the exponent of
      the smallest normal double\<close>
  "round_double q =
     (if q = 0 then Finite 0
      else
        let e = max (ilog2 q) (- 1022);
            ulp = 2 powi (e - 52);
            n = round_half_even (q / ulp)
        in if 1024 \<le> e \<or> (e = 1023 \<and> 2 ^ 53 \<le> \<bar>n\<bar>)
           then (if 0 < q then PosInf else NegInf)
           else Finite (of_int n * ulp))"

definition float_literal :: "int \<Rightarrow> nat \<Rightarrow> pyfloat" where
  \<comment> \<open>the float written as the decimal \<open>m\<close> with \<open>d\<close> digits after the point, as \<open>12.34\<close> is
      \<open>float_literal 1234 2\<close>: the double nearest to it\<close>
  "float_literal m d = round_double (of_int m / 10 ^ d)"

definition float_of_int :: "int \<Rightarrow> error + pyfloat" where
  \<comment> \<open>an \<open>int\<close> used where a float is needed; too large an \<open>int\<close> is an OverflowError\<close>
  "float_of_int i =
     (case round_double (of_int i) of
        Finite r \<Rightarrow> Inr (Finite r)
      | _ \<Rightarrow> Inl OverflowError)"

definition py_float :: "pynum \<Rightarrow> error + pyfloat" where
  "py_float x = (case x of PyInt i \<Rightarrow> float_of_int i | PyFloat f \<Rightarrow> Inr f)"

definition float_times :: "pyfloat \<Rightarrow> rat \<Rightarrow> pyfloat" where
  \<comment> \<open>\<open>x * c\<close> for a positive finite double \<open>c\<close>\<close>
  "float_times x c = (case x of Finite q \<Rightarrow> round_double (q * c) | _ \<Rightarrow> x)"

definition float_over :: "pyfloat \<Rightarrow> rat \<Rightarrow> pyfloat" where
  \<comment> \<open>\<open>x / c\<close> for a positive finite double \<open>c\<close>\<close>
  "float_over x c = (case x of Finite q \<Rightarrow> round_double (q / c) | _ \<Rightarrow> x)"

fun float_minus :: "pyfloat \<Rightarrow> pyfloat \<Rightarrow> pyfloat" where
  "float_minus (Finite a) (Finite b) = round_double (a - b)"
| "float_minus NaN _ = NaN"
| "float_minus _ NaN = NaN"
| "float_minus PosInf PosInf = NaN"
| "float_minus NegInf NegInf = NaN"
| "float_minus PosInf _ = PosInf"
| "float_minus NegInf _ = NegInf"
| "float_minus (Finite a) PosInf = NegInf"
| "float_minus (Finite a) NegInf = PosInf"

definition float_abs :: "pyfloat \<Rightarrow> pyfloat" where
  "float_abs x =
     (case x of Finite q \<Rightarrow> Finite \<bar>q\<bar> | PosInf \<Rightarrow> PosInf | NegInf \<Rightarrow> PosInf | NaN \<Rightarrow> NaN)"

fun float_le :: "pyfloat \<Rightarrow> pyfloat \<Rightarrow> bool" where
  "float_le NaN _ = False"
| "float_le _ NaN = False"
| "float_le NegInf _ = True"
| "float_le _ PosInf = True"
| "float_le (Finite a) (Finite b) = (a \<le> b)"
| "float_le PosInf _ = False"
| "float_le _ NegInf = False"

definition float_le_num :: "pyfloat \<Rightarrow> pynum \<Rightarrow> bool" where
  \<comment> \<open>\<open>x <= m\<close>; a float and an \<open>int\<close> are compared by their exact values\<close>
  "float_le_num x m =
     (case m of PyInt i \<Rightarrow> float_le x (Finite (of_int i)) | PyFloat f \<Rightarrow> float_le x f)"

definition int_of_float :: "pyfloat \<Rightarrow> error + int" where
  \<comment> \<open>\<open>int(x)\<close>: truncation toward zero\<close>
  "int_of_float x =
     (case x of
        Finite q \<Rightarrow> Inr (if 0 \<le> q then \<lfloor>q\<rfloor> else \<lceil>q\<rceil>)
      | NaN \<Rightarrow> Inl ValueError
      | _ \<Rightarrow> Inl OverflowError)"

definition lit_0_01 :: rat where
  \<comment> \<open>the double written \<open>0.01\<close>\<close>
  "lit_0_01 = 5764607523034235 / 2 ^ 59"

definition lit_0_1 :: rat where
  \<comment> \<open>the double written \<open>0.1\<close>\<close>
  "lit_0_1 = 3602879701896397 / 2 ^ 55"

definition Py_MATH_PI :: rat where
  \<comment> \<open>the double nearest to \<open>\<pi>\<close>\<close>
  "Py_MATH_PI = 884279719003555 / 2 ^ 48"

definition degToRad :: rat where
  \<comment> \<open>\<open>Py_MATH_PI / 180.0\<close>, rounded\<close>
  "degToRad = 5030569068109113 / 2 ^ 58"

definition radToDeg :: rat where
  \<comment> \<open>\<open>180.0 / Py_MATH_PI\<close>, rounded\<close>
  "radToDeg = 1007958012753983 / 2 ^ 44"

definition math_radians :: "pynum \<Rightarrow> error + pynum" where
  "math_radians x =
     (case py_float x of Inl e \<Rightarrow> Inl e | Inr f \<Rightarrow> Inr (PyFloat (float_times f degToRad)))"

definition math_degrees :: "pynum \<Rightarrow> error + pynum" where
  "math_degrees x =
     (case py_float x of Inl e \<Rightarrow> Inl e | Inr f \<Rightarrow> Inr (PyFloat (float_times f radToDeg)))"

definition times_3600 :: "pynum \<Rightarrow> pynum" where
  \<comment> \<open>\<open>x * 3600\<close>: exact on an \<open>int\<close>, rounded on a float\<close>
  "times_3600 x =
     (case x of PyInt i \<Rightarrow> PyInt (i * 3600) | PyFloat f \<Rightarrow> PyFloat (float_times f 3600))"

definition over_3600 :: "pynum \<Rightarrow> error + pynum" where
  \<comment> \<open>\<open>x / 3600\<close>: true division, always a float\<close>
  "over_3600 x =
     (case x of
        PyInt i \<Rightarrow>
          (case round_double (of_int i / 3600) of
             Finite r \<Rightarrow> Inr (PyFloat (Finite r))
           | _ \<Rightarrow> Inl OverflowError)
      | PyFloat f \<Rightarrow> Inr (PyFloat (float_over f 3600)))"

section \<open>Unit conversion\<close>

definition ArcSec_To_Degrees :: "pynum \<Rightarrow> error + pynum" where
  "ArcSec_To_Degrees arcsec = over_3600 arcsec"

definition ArcSec_To_Radians :: "pynum \<Rightarrow> error + pynum" where
  "ArcSec_To_Radians arcsec =
     (case over_3600 arcsec of Inl e \<Rightarrow> Inl e | Inr d \<Rightarrow> math_radians d)"

definition Degrees_To_Arcsec :: "pynum \<Rightarrow> error + pynum" where
  "Degrees_To_Arcsec degrees = Inr (times_3600 degrees)"

definition Degrees_To_Radians :: "pynum \<Rightarrow> error + pynum" where
  "Degrees_To_Radians degrees = math_radians degrees"

definition Radians_To_Arcsec :: "pynum \<Rightarrow> error + pynum" where
  "Radians_To_Arcsec radians =
     (case math_degrees radians of Inl e \<Rightarrow> Inl e | Inr d \<Rightarrow> Inr (times_3600 d))"

definition Radians_To_Degrees :: "pynum \<Rightarrow> error + pynum" where
  "Radians_To_Degrees radians = math_degrees radians"

section \<open>The serial port and the mount behind it\<close>

text \<open>
  The object state: the two staged flags and the serial port \<open>self.mount\<close>, whose fields
  are kept in the same record. \<open>written\<close> is every command written to the port, oldest
  first. \<open>inbuf\<close> is the bytes that have arrived and were not read yet. \<open>device\<close> is the
  mount at the other end of the line: given all commands written so far (the last one is
  the command just written), the bytes it answers. A read takes what is in the buffer; a
  read that finds fewer bytes than it asked for returns the fewer bytes, as pySerial does
  when its timeout expires.
\<close>

record AzMountPro =
  new_Alt :: bool
  new_Az :: bool
  written :: "string list"
  inbuf :: string
  device :: "string list \<Rightarrow> string"

datatype expected = Count nat | Until char

definition serial_write :: "AzMountPro \<Rightarrow> string \<Rightarrow> AzMountPro" where
  "serial_write self command =
     self\<lparr>written := written self @ [command],
          inbuf := inbuf self @ device self (written self @ [command])\<rparr>"

definition serial_read :: "AzMountPro \<Rightarrow> nat \<Rightarrow> string \<times> AzMountPro" where
  "serial_read self n = (take n (inbuf self), self\<lparr>inbuf := drop n (inbuf self)\<rparr>)"

definition serial_read_until :: "AzMountPro \<Rightarrow> char \<Rightarrow> string \<times> AzMountPro" where
  "serial_read_until self c =
     (let k = Suc (length (takeWhile (\<lambda>x. x \<noteq> c) (inbuf self)))
      in (take k (inbuf self), self\<lparr>inbuf := drop k (inbuf self)\<rparr>))"

definition ascii :: "string \<Rightarrow> bool" where
  "ascii bs = list_all (\<lambda>b. (of_char b :: nat) < 128) bs"

definition decode_utf8 :: "string \<Rightarrow> error + string" where
  \<comment> \<open>ASCII bytes decode to themselves. A byte from 0x80 up is reported as a decoding
      error: the protocol has no such byte, and a multi-byte sequence is not modelled.\<close>
  "decode_utf8 bs = (if ascii bs then Inr bs else Inl UnicodeDecodeError)"

definition SendMessage ::
  "AzMountPro \<Rightarrow> string \<Rightarrow> expected \<Rightarrow> (error + string) \<times> AzMountPro" where
  \<comment> \<open>\<open>_SendMessage\<close>: write the command, then read a fixed number of bytes or up to a
      terminator, and decode\<close>
  "SendMessage self command expd =
     (let s1 = serial_write self command;
          (reply, s2) = (case expd of
                           Count n \<Rightarrow> serial_read s1 n
                         | Until c \<Rightarrow> serial_read_until s1 c)
      in (decode_utf8 reply, s2))"

section \<open>Status decoding\<close>

definition gps_Msgs :: "(char \<times> string) list" where
  "gps_Msgs = [(CHR ''0'', ''GPS off''), (CHR ''1'', ''GPS on''), (CHR ''2'', ''GPS working'')]"

definition system_Msgs :: "(char \<times> string) list" where
  "system_Msgs =
     [(CHR ''0'', ''stopped (not zeroed)''),
      (CHR ''1'', ''tracking (PEC disabled)''),
      (CHR ''2'', ''slewing''),
      (CHR ''3'', ''guiding''),
      (CHR ''4'', ''meridian flipping''),
      (CHR ''5'', ''tracking (PEC enabled''),
      (CHR ''6'', ''parked''),
      (CHR ''7'', ''stopped at home'')]"

definition track_Msgs :: "(char \<times> string) list" where
  "track_Msgs =
     [(CHR ''0'', ''siderial''), (CHR ''1'', ''lunar''), (CHR ''2'', ''solar''),
      (CHR ''3'', ''king''), (CHR ''4'', ''custom'')]"

definition speed_Msgs :: "(char \<times> string) list" where
  "speed_Msgs =
     [(CHR ''1'', ''1x''), (CHR ''2'', ''2x''), (CHR ''3'', ''8x''), (CHR ''4'', ''16x''),
      (CHR ''5'', ''64x''), (CHR ''6'', ''128x''), (CHR ''7'', ''256x''),
      (CHR ''8'', ''512x''), (CHR ''9'', ''max'')]"

definition time_Msgs :: "(char \<times> string) list" where
  "time_Msgs =
     [(CHR ''0'', ''unknown''), (CHR ''1'', ''RS232''), (CHR ''2'', ''Hand controller''),
      (CHR ''3'', ''GPS'')]"

definition hemi_Msgs :: "(char \<times> string) list" where
  "hemi_Msgs = [(CHR ''0'', ''Southern''), (CHR ''1'', ''Northern'')]"

text \<open>
  \<open>Get_StatusInfo\<close> returns a dictionary of six messages when \<open>readable\<close> is true and the
  packed reply without its last character otherwise.
\<close>

record status_dict =
  GPS_status :: string
  System_status :: string
  Track_rate :: string
  Move_speed :: string
  Time_source :: string
  Hemisphere :: string

datatype status_info = Readable status_dict | Packed string

definition lookup_field :: "(char \<times> string) list \<Rightarrow> string \<Rightarrow> nat \<Rightarrow> error + string" where
  \<comment> \<open>\<open>msgs[status[i]]\<close>: the index is evaluated first, then the key is looked up\<close>
  "lookup_field msgs status i =
     (case getitem status i of Inl e \<Rightarrow> Inl e | Inr c \<Rightarrow> dict_get msgs c)"

definition decode_status :: "string \<Rightarrow> error + status_dict" where
  "decode_status status =
     (case lookup_field gps_Msgs status 0 of Inl e \<Rightarrow> Inl e | Inr gps \<Rightarrow>
     (case lookup_field system_Msgs status 1 of Inl e \<Rightarrow> Inl e | Inr system \<Rightarrow>
     (case lookup_field track_Msgs status 2 of Inl e \<Rightarrow> Inl e | Inr track_Rate \<Rightarrow>
     (case lookup_field speed_Msgs status 3 of Inl e \<Rightarrow> Inl e | Inr move_Speed \<Rightarrow>
     (case lookup_field time_Msgs status 4 of Inl e \<Rightarrow> Inl e | Inr time_Source \<Rightarrow>
     (case lookup_field hemi_Msgs status 5 of Inl e \<Rightarrow> Inl e | Inr hemisphere \<Rightarrow>
        Inr \<lparr>GPS_status = gps, System_status = system, Track_rate = track_Rate,
             Move_speed = move_Speed, Time_source = time_Source,
             Hemisphere = hemisphere\<rparr>))))))"

definition Get_StatusInfo ::
  "AzMountPro \<Rightarrow> bool \<Rightarrow> (error + status_info) \<times> AzMountPro" where
  "Get_StatusInfo self readable =
     (case SendMessage self '':GAS#'' (Until CHR ''#'') of
        (Inl e, s) \<Rightarrow> (Inl e, s)
      | (Inr status, s) \<Rightarrow>
          if readable then
            (case decode_status status of
               Inl e \<Rightarrow> (Inl e, s)
             | Inr d \<Rightarrow> (Inr (Readable d), s))
          else (Inr (Packed (butlast status)), s))"

definition system_digit :: "status_info \<Rightarrow> error + char" where
  \<comment> \<open>\<open>Get_StatusInfo(False)[1]\<close>; subscripting the dictionary with 1 would be a KeyError\<close>
  "system_digit info =
     (case info of Packed p \<Rightarrow> getitem p 1 | Readable d \<Rightarrow> Inl KeyError)"

definition status_in ::
  "AzMountPro \<Rightarrow> string \<Rightarrow> (error + bool) \<times> AzMountPro" where
  \<comment> \<open>the common body of the four predicates: query, take the system digit, test it\<close>
  "status_in self accepted =
     (case Get_StatusInfo self False of
        (Inl e, s) \<Rightarrow> (Inl e, s)
      | (Inr info, s) \<Rightarrow>
          (case system_digit info of
             Inl e \<Rightarrow> (Inl e, s)
           | Inr status \<Rightarrow> (Inr (status \<in> set accepted), s)))"

definition Is_Homed :: "AzMountPro \<Rightarrow> (error + bool) \<times> AzMountPro" where
  "Is_Homed self = status_in self ''7''"

definition Is_Slewing :: "AzMountPro \<Rightarrow> (error + bool) \<times> AzMountPro" where
  "Is_Slewing self = status_in self ''2''"

definition Is_Stopped :: "AzMountPro \<Rightarrow> (error + bool) \<times> AzMountPro" where
  "Is_Stopped self = status_in self ''067''"

definition Is_Tracking :: "AzMountPro \<Rightarrow> (error + bool) \<times> AzMountPro" where
  "Is_Tracking self = status_in self ''15''"

section \<open>Reading the position\<close>

definition units_Allowed :: "string list" where
  "units_Allowed = [''arcsec'', ''degrees'', ''radians'']"

definition int_times_0_01 :: "int \<Rightarrow> error + pyfloat" where
  \<comment> \<open>\<open>i * 0.01\<close>\<close>
  "int_times_0_01 i =
     (case float_of_int i of Inl e \<Rightarrow> Inl e | Inr f \<Rightarrow> Inr (float_times f lit_0_01))"

definition from_arcsec :: "string \<Rightarrow> pyfloat \<Rightarrow> error + pynum" where
  \<comment> \<open>the \<open>if units == "degrees" ... elif units == "radians" ...\<close> of \<open>Get_AltAz\<close>\<close>
  "from_arcsec units x =
     (if units = ''degrees'' then ArcSec_To_Degrees (PyFloat x)
      else if units = ''radians'' then ArcSec_To_Radians (PyFloat x)
      else Inr (PyFloat x))"

definition parse_AltAz :: "string \<Rightarrow> string \<Rightarrow> error + (pynum \<times> pynum)" where
  \<comment> \<open>what \<open>Get_AltAz\<close> does with the reply, terminator removed: sign and eight digits of
      altitude, then the azimuth, both in hundredths of an arcsecond\<close>
  "parse_AltAz units altaz_Reply =
     (case py_int (take 9 altaz_Reply) of Inl e \<Rightarrow> Inl e | Inr a \<Rightarrow>
     (case int_times_0_01 a of Inl e \<Rightarrow> Inl e | Inr alt \<Rightarrow>
     (case py_int (drop 9 altaz_Reply) of Inl e \<Rightarrow> Inl e | Inr z \<Rightarrow>
     (case int_times_0_01 z of Inl e \<Rightarrow> Inl e | Inr az \<Rightarrow>
     (case from_arcsec units alt of Inl e \<Rightarrow> Inl e | Inr alt' \<Rightarrow>
     (case from_arcsec units az of Inl e \<Rightarrow> Inl e | Inr az' \<Rightarrow>
        Inr (alt', az')))))))"

definition Get_AltAz ::
  "AzMountPro \<Rightarrow> string \<Rightarrow> (error + (pynum \<times> pynum)) \<times> AzMountPro" where
  "Get_AltAz self units =
     (if units \<notin> set units_Allowed then (Inl AssertionError, self)
      else
        (case SendMessage self '':GAC#'' (Until CHR ''#'') of
           (Inl e, s) \<Rightarrow> (Inl e, s)
         | (Inr reply, s) \<Rightarrow> (parse_AltAz units (butlast reply), s)))"

section \<open>Staging a target and moving\<close>

definition hundredths :: "pynum \<Rightarrow> string \<Rightarrow> error + int" where
  \<comment> \<open>the opening of \<open>_Set_Altitude\<close> and of \<open>_Set_Azimuth\<close>: check the unit, convert to
      arcseconds, then \<open>int(value / 0.01)\<close>\<close>
  "hundredths val units =
     (if units \<notin> set units_Allowed then Inl AssertionError
      else
        (case (if units = ''degrees'' then Degrees_To_Arcsec val
               else if units = ''radians'' then Radians_To_Arcsec val
               else Inr val) of
           Inl e \<Rightarrow> Inl e
         | Inr arcsec \<Rightarrow>
             (case py_float arcsec of
                Inl e \<Rightarrow> Inl e
              | Inr f \<Rightarrow> int_of_float (float_over f lit_0_01))))"

definition acknowledge ::
  "AzMountPro \<Rightarrow> string \<Rightarrow> (error + int) \<times> AzMountPro" where
  \<comment> \<open>\<open>int(self._SendMessage(cmd, 1))\<close>\<close>
  "acknowledge self cmd =
     (case SendMessage self cmd (Count 1) of
        (Inl e, s) \<Rightarrow> (Inl e, s)
      | (Inr reply, s) \<Rightarrow>
          (case py_int reply of Inl e \<Rightarrow> (Inl e, s) | Inr r \<Rightarrow> (Inr r, s)))"

definition altitude_cmd :: "int \<Rightarrow> string" where
  "altitude_cmd altitude =
     '':Sa'' @ (if 0 \<le> altitude then ''+'' else []) @ rjust 8 CHR ''0'' (str_int altitude)
       @ ''#''"

definition azimuth_cmd :: "int \<Rightarrow> string" where
  "azimuth_cmd azimuth = '':Sz'' @ rjust 9 CHR ''0'' (str_int azimuth) @ ''#''"

definition Set_Altitude ::
  "AzMountPro \<Rightarrow> pynum \<Rightarrow> string \<Rightarrow> (error + int) \<times> AzMountPro" where
  \<comment> \<open>\<open>_Set_Altitude\<close>; the range assertion is commented out in the source\<close>
  "Set_Altitude self altitude units =
     (case hundredths altitude units of
        Inl e \<Rightarrow> (Inl e, self)
      | Inr alt \<Rightarrow>
          (case acknowledge self (altitude_cmd alt) of
             (Inl e, s) \<Rightarrow> (Inl e, s)
           | (Inr alt_Reply, s) \<Rightarrow>
               (Inr alt_Reply, if alt_Reply = 1 then s\<lparr>new_Alt := True\<rparr> else s)))"

definition Set_Azimuth ::
  "AzMountPro \<Rightarrow> pynum \<Rightarrow> string \<Rightarrow> (error + int) \<times> AzMountPro" where
  \<comment> \<open>\<open>_Set_Azimuth\<close>\<close>
  "Set_Azimuth self azimuth units =
     (case hundredths azimuth units of
        Inl e \<Rightarrow> (Inl e, self)
      | Inr az \<Rightarrow>
          if \<not> (0 \<le> az \<and> az \<le> 129600000) then (Inl AssertionError, self)
          else
            (case acknowledge self (azimuth_cmd az) of
               (Inl e, s) \<Rightarrow> (Inl e, s)
             | (Inr az_Reply, s) \<Rightarrow>
                 (Inr az_Reply, if az_Reply = 1 then s\<lparr>new_Az := True\<rparr> else s)))"

definition Set_AltAz ::
  "AzMountPro \<Rightarrow> pynum \<Rightarrow> pynum \<Rightarrow> string \<Rightarrow> (error + (int \<times> int)) \<times> AzMountPro" where
  "Set_AltAz self altitude azimuth units =
     (case Set_Altitude self altitude units of
        (Inl e, s) \<Rightarrow> (Inl e, s)
      | (Inr alt_Reply, s) \<Rightarrow>
          (case Set_Azimuth s azimuth units of
             (Inl e, s') \<Rightarrow> (Inl e, s')
           | (Inr az_Reply, s') \<Rightarrow> (Inr (alt_Reply, az_Reply), s')))"

definition Move :: "AzMountPro \<Rightarrow> (error + int) \<times> AzMountPro" where
  \<comment> \<open>\<open>_Move\<close>; a reply of 0 is logged as a warning and returned\<close>
  "Move self =
     (if \<not> (new_Alt self \<and> new_Az self) then (Inl AssertionError, self)
      else acknowledge (self\<lparr>new_Alt := False, new_Az := False\<rparr>) '':MS#'')"

definition Go_AltAz ::
  "AzMountPro \<Rightarrow> pynum \<Rightarrow> pynum \<Rightarrow> string \<Rightarrow>
     (error + ((int \<times> int) \<times> int)) \<times> AzMountPro" where
  "Go_AltAz self altitude azimuth units =
     (case Set_AltAz self altitude azimuth units of
        (Inl e, s) \<Rightarrow> (Inl e, s)
      | (Inr set_Reply, s) \<Rightarrow>
          (case Move s of
             (Inl e, s') \<Rightarrow> (Inl e, s')
           | (Inr move_Reply, s') \<Rightarrow> (Inr (set_Reply, move_Reply), s')))"

definition close_to :: "pynum \<Rightarrow> pynum \<Rightarrow> pynum \<Rightarrow> error + bool" where
  \<comment> \<open>\<open>abs(actual - query) <= margin\<close>; the position read is always a float\<close>
  "close_to actual query margin =
     (case py_float actual of Inl e \<Rightarrow> Inl e | Inr a \<Rightarrow>
     (case py_float query of Inl e \<Rightarrow> Inl e | Inr q \<Rightarrow>
        Inr (float_le_num (float_abs (float_minus a q)) margin)))"

definition Is_At_AltAz ::
  "AzMountPro \<Rightarrow> pynum \<Rightarrow> pynum \<Rightarrow> pynum \<Rightarrow> string \<Rightarrow> (error + bool) \<times> AzMountPro" where
  "Is_At_AltAz self altitude_Query azimuth_Query margin units =
     (case Get_AltAz self units of
        (Inl e, s) \<Rightarrow> (Inl e, s)
      | (Inr (altitude_Actual, azimuth_Actual), s) \<Rightarrow>
          (case close_to altitude_Actual altitude_Query margin of
             Inl e \<Rightarrow> (Inl e, s)
           | Inr alt_Good \<Rightarrow>
               (case close_to azimuth_Actual azimuth_Query margin of
                  Inl e \<Rightarrow> (Inl e, s)
                | Inr az_Good \<Rightarrow> (Inr (alt_Good \<and> az_Good), s))))"

text \<open>
  The loop of \<open>Go_Blocking\<close>:
  \<^verbatim>\<open>while not (self.Is_At_AltAz(altitude, azimuth, 0.1) and (self.Is_Stopped)):\<close>
  \<open>self.Is_Stopped\<close> is written without parentheses: it is the bound method, which is
  true as a condition, and no status query is made. \<open>Is_At_AltAz\<close> is called with its
  default unit, degrees. The loop can run forever, so its result is an option: \<open>None\<close>
  is the run that never returns.
\<close>

definition bound_method_truth :: bool where
  \<comment> \<open>the truth value of a method object\<close>
  "bound_method_truth = True"

partial_function (option) Go_Blocking_wait ::
  "AzMountPro \<Rightarrow> pynum \<Rightarrow> pynum \<Rightarrow> ((error + unit) \<times> AzMountPro) option" where
  "Go_Blocking_wait self altitude azimuth =
     (case Is_At_AltAz self altitude azimuth (PyFloat (Finite lit_0_1)) ''degrees'' of
        (Inl e, s) \<Rightarrow> Some (Inl e, s)
      | (Inr arrived, s) \<Rightarrow>
          if \<not> (arrived \<and> bound_method_truth) then Go_Blocking_wait s altitude azimuth
          else Some (Inr (), s))"

definition Go_Blocking ::
  "AzMountPro \<Rightarrow> pynum \<Rightarrow> pynum \<Rightarrow> string \<Rightarrow>
     ((error + ((int \<times> int) \<times> int)) \<times> AzMountPro) option" where
  "Go_Blocking self altitude azimuth units =
     (case Go_AltAz self altitude azimuth units of
        (Inl e, s) \<Rightarrow> Some (Inl e, s)
      | (Inr move_Reply, s) \<Rightarrow>
          (case Go_Blocking_wait s altitude azimuth of
             None \<Rightarrow> None
           | Some (Inl e, s') \<Rightarrow> Some (Inl e, s')
           | Some (Inr u, s') \<Rightarrow> Some (Inr move_Reply, s')))"

section \<open>Settings and queries used when the object is created\<close>

record firmware =
  mainboard :: string
  handcontroller :: string
  ra_motor :: string
  dec_motor :: string

definition Get_FirmwareVersion :: "AzMountPro \<Rightarrow> (error + firmware) \<times> AzMountPro" where
  "Get_FirmwareVersion self =
     (case SendMessage self '':FW1#'' (Until CHR ''#'') of
        (Inl e, s) \<Rightarrow> (Inl e, s)
      | (Inr r1, s) \<Rightarrow>
          (case SendMessage s '':FW2#'' (Until CHR ''#'') of
             (Inl e, s') \<Rightarrow> (Inl e, s')
           | (Inr r2, s') \<Rightarrow>
               (let fw1 = butlast r1; fw2 = butlast r2
                in (Inr \<lparr>mainboard = take 6 fw1, handcontroller = drop 6 fw1,
                         ra_motor = take 6 fw2, dec_motor = drop 6 fw2\<rparr>, s'))))"

definition Track :: "AzMountPro \<Rightarrow> bool \<Rightarrow> (error + int) \<times> AzMountPro" where
  "Track self do_Tracking =
     (if do_Tracking then acknowledge self '':ST1#'' else acknowledge self '':ST0#'')"

definition rates_Available :: "(string \<times> string) list" where
  "rates_Available =
     [(''1x'', ''1''), (''2x'', ''2''), (''8x'', ''3''), (''16x'', ''4''), (''64x'', ''5''),
      (''128x'', ''6''), (''256x'', ''7''), (''512x'', ''8''), (''max'', ''9'')]"

definition Set_MoveRate :: "AzMountPro \<Rightarrow> string \<Rightarrow> (error + int) \<times> AzMountPro" where
  "Set_MoveRate self rate =
     (case dict_get rates_Available rate of
        Inl e \<Rightarrow> (Inl e, self)
      | Inr n \<Rightarrow> acknowledge self ('':SR'' @ n @ ''#''))"

definition num_ge :: "pynum \<Rightarrow> int \<Rightarrow> bool" where
  \<comment> \<open>\<open>x >= k\<close> for an \<open>int\<close> literal \<open>k\<close>\<close>
  "num_ge x k =
     (case x of PyInt i \<Rightarrow> k \<le> i | PyFloat f \<Rightarrow> float_le (Finite (of_int k)) f)"

definition num_le :: "pynum \<Rightarrow> int \<Rightarrow> bool" where
  \<comment> \<open>\<open>x <= k\<close> for an \<open>int\<close> literal \<open>k\<close>\<close>
  "num_le x k =
     (case x of PyInt i \<Rightarrow> i \<le> k | PyFloat f \<Rightarrow> float_le f (Finite (of_int k)))"

definition int_of_num :: "pynum \<Rightarrow> error + int" where
  \<comment> \<open>\<open>int(x)\<close>\<close>
  "int_of_num x = (case x of PyInt i \<Rightarrow> Inr i | PyFloat f \<Rightarrow> int_of_float f)"

definition Set_AltLimit ::
  "AzMountPro \<Rightarrow> pynum \<Rightarrow> string \<Rightarrow> (error + int) \<times> AzMountPro" where
  "Set_AltLimit self limit units =
     (if units \<notin> set units_Allowed then (Inl AssertionError, self)
      else
        (case (if units = ''radians'' then Radians_To_Degrees limit
               else if units = ''arcsec'' then ArcSec_To_Degrees limit
               else Inr limit) of
           Inl e \<Rightarrow> (Inl e, self)
         | Inr limit_deg \<Rightarrow>
             if \<not> (num_ge limit_deg (- 89) \<and> num_le limit_deg 89) then (Inl AssertionError, self)
             else
               (case int_of_num limit_deg of
                  Inl e \<Rightarrow> (Inl e, self)
                | Inr n \<Rightarrow>
                    acknowledge self
                      ('':SAL'' @ (if num_ge limit_deg 0 then ''+'' else []) @
                         rjust 2 CHR ''0'' (str_int n) @ ''#''))))"

definition Get_LatLong ::
  "AzMountPro \<Rightarrow> (error + (pynum \<times> pynum)) \<times> AzMountPro" where
  "Get_LatLong self =
     (case SendMessage self '':Gt#'' (Until CHR ''#'') of
        (Inl e, s) \<Rightarrow> (Inl e, s)
      | (Inr lat_Reply, s) \<Rightarrow>
          (case py_int (butlast (drop 1 lat_Reply)) of
             Inl e \<Rightarrow> (Inl e, s)
           | Inr a \<Rightarrow>
               (case ArcSec_To_Degrees (PyInt a) of
                  Inl e \<Rightarrow> (Inl e, s)
                | Inr lat \<Rightarrow>
                    (case SendMessage s '':Gg#'' (Until CHR ''#'') of
                       (Inl e, s') \<Rightarrow> (Inl e, s')
                     | (Inr long_Reply, s') \<Rightarrow>
                         (case py_int (butlast (drop 1 long_Reply)) of
                            Inl e \<Rightarrow> (Inl e, s')
                          | Inr b \<Rightarrow>
                              (case ArcSec_To_Degrees (PyInt b) of
                                 Inl e \<Rightarrow> (Inl e, s')
                               | Inr long \<Rightarrow> (Inr (lat, long), s')))))))"

text \<open>
  \<open>Get_TimeInfo\<close> hands the assembled ISO 8601 text to \<open>dateutil.parser.parse\<close>, a
  library outside the repository. The library is the parameter \<open>parse\<close>: the texts it
  accepts. The result is the accepted text and the daylight-saving digit.
\<close>

definition time_text :: "string \<Rightarrow> error + string" where
  "time_text time_Reply =
     (let tz = take 4 time_Reply;
          date = take 6 (drop 5 time_Reply);
          time_Stamp = take 6 (drop 11 time_Reply)
      in case py_int (drop 1 tz) of
           Inl e \<Rightarrow> Inl e
         | Inr m \<Rightarrow>
             (case getitem tz 0 of
                Inl e \<Rightarrow> Inl e
              | Inr sign \<Rightarrow>
                  Inr (''20'' @ take 2 date @ ''-'' @ take 2 (drop 2 date) @ ''-'' @
                       take 2 (drop 4 date) @ ''T'' @ take 2 time_Stamp @ '':'' @
                       take 2 (drop 2 time_Stamp) @ '':'' @ take 2 (drop 4 time_Stamp) @
                       [sign] @ rjust 2 CHR ''0'' (str_int (m div 60)) @ '':'' @
                       rjust 2 CHR ''0'' (str_int (m mod 60)))))"

definition Get_TimeInfo ::
  "(string \<Rightarrow> bool) \<Rightarrow> AzMountPro \<Rightarrow> (error + (string \<times> char)) \<times> AzMountPro" where
  "Get_TimeInfo parse self =
     (case SendMessage self '':GLT#'' (Until CHR ''#'') of
        (Inl e, s) \<Rightarrow> (Inl e, s)
      | (Inr time_Reply, s) \<Rightarrow>
          (case getitem time_Reply 4 of
             Inl e \<Rightarrow> (Inl e, s)
           | Inr dst \<Rightarrow>
               (case time_text time_Reply of
                  Inl e \<Rightarrow> (Inl e, s)
                | Inr t \<Rightarrow> if parse t then (Inr (t, dst), s) else (Inl ParserError, s))))"

section \<open>Homing and creation\<close>

text \<open>
  \<open>Go_Home\<close> polls \<open>Is_Homed\<close> until it is true, with no bound on the number of polls.
\<close>

partial_function (option) Go_Home_wait ::
  "AzMountPro \<Rightarrow> ((error + unit) \<times> AzMountPro) option" where
  "Go_Home_wait self =
     (case Is_Homed self of
        (Inl e, s) \<Rightarrow> Some (Inl e, s)
      | (Inr homed, s) \<Rightarrow> if \<not> homed then Go_Home_wait s else Some (Inr (), s))"

definition Go_Home :: "AzMountPro \<Rightarrow> ((error + int) \<times> AzMountPro) option" where
  "Go_Home self =
     (case acknowledge self '':MH#'' of
        (Inl e, s) \<Rightarrow> Some (Inl e, s)
      | (Inr home_Reply, s) \<Rightarrow>
          (case Go_Home_wait s of
             None \<Rightarrow> None
           | Some (Inl e, s') \<Rightarrow> Some (Inl e, s')
           | Some (Inr u, s') \<Rightarrow> Some (Inr home_Reply, s')))"

text \<open>
  \<open>AzMountPro.__init__\<close>, from the first command on a port that is open: the version and
  model queries, the assertion on both replies, the firmware query, the known state
  (tracking off, maximal move rate, altitude limit), the three diagnostic queries, the
  flags, and homing.
\<close>

definition init ::
  "(string \<Rightarrow> bool) \<Rightarrow> AzMountPro \<Rightarrow> ((error + unit) \<times> AzMountPro) option" where
  "init parse self =
     (case SendMessage self '':V#'' (Until CHR ''#'') of
        (Inl e, s1) \<Rightarrow> Some (Inl e, s1)
      | (Inr version, s1) \<Rightarrow>
     (case SendMessage s1 '':MountInfo#'' (Count 4) of
        (Inl e, s2) \<Rightarrow> Some (Inl e, s2)
      | (Inr model, s2) \<Rightarrow>
     if \<not> (butlast version = ''V1.00'' \<and> model = ''5035'') then Some (Inl AssertionError, s2)
     else
     (case Get_FirmwareVersion s2 of
        (Inl e, s3) \<Rightarrow> Some (Inl e, s3)
      | (Inr firmware_Versions, s3) \<Rightarrow>
     (case Track s3 False of
        (Inl e, s4) \<Rightarrow> Some (Inl e, s4)
      | (Inr r4, s4) \<Rightarrow>
     (case Set_MoveRate s4 ''max'' of
        (Inl e, s5) \<Rightarrow> Some (Inl e, s5)
      | (Inr r5, s5) \<Rightarrow>
     (case Set_AltLimit s5 (PyInt (- 89)) ''degrees'' of
        (Inl e, s6) \<Rightarrow> Some (Inl e, s6)
      | (Inr r6, s6) \<Rightarrow>
     (case Get_StatusInfo s6 True of
        (Inl e, s7) \<Rightarrow> Some (Inl e, s7)
      | (Inr status, s7) \<Rightarrow>
     (case Get_TimeInfo parse s7 of
        (Inl e, s8) \<Rightarrow> Some (Inl e, s8)
      | (Inr time_Info, s8) \<Rightarrow>
     (case Get_LatLong s8 of
        (Inl e, s9) \<Rightarrow> Some (Inl e, s9)
      | (Inr latlong, s9) \<Rightarrow>
     (case Go_Home (s9\<lparr>new_Alt := False, new_Az := False\<rparr>) of
        None \<Rightarrow> None
      | Some (Inl e, s10) \<Rightarrow> Some (Inl e, s10)
      | Some (Inr home_Reply, s10) \<Rightarrow> Some (Inr (), s10)))))))))))"

declare Go_Blocking_wait.simps [code]

declare Go_Home_wait.simps [code]

section \<open>Mounts for the examples\<close>

text \<open>
  Two kinds of mount are used in the examples. A scripted mount answers the \<open>n\<close>-th
  command with the \<open>n\<close>-th reply of a list and is silent afterwards. A mount given by a
  table answers each command with the reply the table has for it, however often it is
  asked. \<open>opened\<close> is the object on a port just opened to such a mount.
\<close>

definition scripted :: "string list \<Rightarrow> string list \<Rightarrow> string" where
  "scripted replies history =
     (if history \<noteq> [] \<and> length history \<le> length replies
      then replies ! (length history - 1) else [])"

definition by_command :: "(string \<times> string) list \<Rightarrow> string list \<Rightarrow> string" where
  "by_command table history =
     (case rev history of
        [] \<Rightarrow> []
      | c # _ \<Rightarrow> (case map_of table c of None \<Rightarrow> [] | Some r \<Rightarrow> r))"

definition opened :: "(string list \<Rightarrow> string) \<Rightarrow> AzMountPro" where
  "opened d = \<lparr>new_Alt = False, new_Az = False, written = [], inbuf = [], device = d\<rparr>"

text \<open>
  A mount that acknowledges the commands of a move to 80 and 190 degrees, reports that
  position whenever asked, and reports the system state 2, slewing, whenever asked.
\<close>

definition slewing_at_target :: "string list \<Rightarrow> string" where
  "slewing_at_target =
     by_command [('':Sa+28800000#'', ''1''), ('':Sz068400000#'', ''1''), ('':MS#'', ''1''),
                 ('':GAC#'', ''+28800000068400000#''), ('':GAS#'', ''021911#'')]"

section \<open>Notions used in the statements\<close>

text \<open>
  \<open>ack_byte self cmd\<close> is what a one-byte read returns after \<open>cmd\<close> is written in state
  \<open>self\<close>, and \<open>after_ack self cmd\<close> is the state after that write and read. \<open>staged\<close> is
  an object in the middle of a session: the two flags, the commands written so far, an empty
  input buffer and a mount.
\<close>

definition ack_byte :: "AzMountPro \<Rightarrow> string \<Rightarrow> string" where
  "ack_byte self cmd = take 1 (inbuf self @ device self (written self @ [cmd]))"

definition after_ack :: "AzMountPro \<Rightarrow> string \<Rightarrow> AzMountPro" where
  "after_ack self cmd =
     self\<lparr>written := written self @ [cmd],
          inbuf := drop 1 (inbuf self @ device self (written self @ [cmd]))\<rparr>"

definition staged ::
  "bool \<Rightarrow> bool \<Rightarrow> string list \<Rightarrow> (string list \<Rightarrow> string) \<Rightarrow> AzMountPro" where
  "staged a z w d = \<lparr>new_Alt = a, new_Az = z, written = w, inbuf = [], device = d\<rparr>"

text \<open>
  For the unit converters: \<open>eps\<close> is half the spacing of doubles relative to their size and
  \<open>tiny\<close> half the spacing of the smallest doubles. \<open>finite_num\<close> holds of an \<open>int\<close> and
  of a finite float, and \<open>num_val\<close> is the exact value of such a number. \<open>round_trip\<close>
  converts there and back, stopping at an exception, and \<open>reproduces tol x res\<close> says that
  \<open>res\<close> is a finite number within \<open>tol\<close> of \<open>x\<close>.
\<close>

definition eps :: rat where "eps = 1 / 2 ^ 53"

definition tiny :: rat where "tiny = 1 / 2 ^ 1075"

definition finite_num :: "pynum \<Rightarrow> bool" where
  "finite_num x =
     (case x of
        PyInt i \<Rightarrow> True
      | PyFloat f \<Rightarrow> (case f of Finite q \<Rightarrow> True | _ \<Rightarrow> False))"

definition num_val :: "pynum \<Rightarrow> rat" where
  "num_val x =
     (case x of
        PyInt i \<Rightarrow> of_int i
      | PyFloat f \<Rightarrow> (case f of Finite q \<Rightarrow> q | _ \<Rightarrow> 0))"

definition round_trip ::
  "(pynum \<Rightarrow> error + pynum) \<Rightarrow> (pynum \<Rightarrow> error + pynum) \<Rightarrow> pynum \<Rightarrow> error + pynum" where
  "round_trip there back x = (case there x of Inl e \<Rightarrow> Inl e | Inr y \<Rightarrow> back y)"

definition reproduces :: "rat \<Rightarrow> pynum \<Rightarrow> error + pynum \<Rightarrow> bool" where
  "reproduces tol x res =
     (case res of
        Inl e \<Rightarrow> False
      | Inr y \<Rightarrow> finite_num y \<and> \<bar>num_val y - num_val x\<bar> \<le> tol)"

section \<open>Sending to a scripted mount\<close>

lemma send_scripted_first:
  "SendMessage (opened (scripted (r # rs))) cmd (Until c) =
     (decode_utf8 (take (Suc (length (takeWhile (\<lambda>x. x \<noteq> c) r))) r),
      \<lparr>new_Alt = False, new_Az = False, written = [cmd],
       inbuf = drop (Suc (length (takeWhile (\<lambda>x. x \<noteq> c) r))) r,
       device = scripted (r # rs)\<rparr>)"
  by (simp add: SendMessage_def serial_write_def serial_read_until_def opened_def
      scripted_def Let_def)

section \<open>The status predicates\<close>

lemma status_in_reply:
  assumes "SendMessage self '':GAS#'' (Until CHR ''#'') = (Inr status, s)"
    and "2 < length status"
  shows "status_in self accepted = (Inr (status ! 1 \<in> set accepted), s)"
  using assms
  by (simp add: status_in_def Get_StatusInfo_def system_digit_def getitem_def nth_butlast)

text \<open>
  Claim C6. Let \<open>status\<close> be the reply read to the status query, long enough to have a
  system-state digit (its second character) before the terminator. Then \<open>Is_Homed\<close> is
  true exactly when that digit is 7, \<open>Is_Slewing\<close> exactly when it is 2, \<open>Is_Stopped\<close>
  exactly when it is one of 0, 6, 7, and \<open>Is_Tracking\<close> exactly when it is 1 or 5. So
  digit 7 makes \<open>Is_Homed\<close> and \<open>Is_Stopped\<close> true, and digit 2 makes \<open>Is_Slewing\<close> true
  and \<open>Is_Stopped\<close> false.
\<close>

theorem status_predicates:
  assumes "SendMessage self '':GAS#'' (Until CHR ''#'') = (Inr status, s)"
    and "2 < length status"
  shows "Is_Homed self = (Inr (status ! 1 = CHR ''7''), s)
       \<and> Is_Slewing self = (Inr (status ! 1 = CHR ''2''), s)
       \<and> Is_Stopped self = (Inr (status ! 1 \<in> {CHR ''0'', CHR ''6'', CHR ''7''}), s)
       \<and> Is_Tracking self = (Inr (status ! 1 \<in> {CHR ''1'', CHR ''5''}), s)"
  using status_in_reply [OF assms]
  by (simp add: Is_Homed_def Is_Slewing_def Is_Stopped_def Is_Tracking_def)

theorem status_predicates_witness:
  "Is_Homed (opened (scripted [''071911#''])) =
     (Inr True, \<lparr>new_Alt = False, new_Az = False, written = ['':GAS#''], inbuf = [],
                 device = scripted [''071911#'']\<rparr>)
   \<and> fst (Is_Stopped (opened (scripted [''071911#'']))) = Inr True
   \<and> fst (Is_Slewing (opened (scripted [''071911#'']))) = Inr False
   \<and> fst (Is_Tracking (opened (scripted [''071911#'']))) = Inr False"
proof -
  have h: "SendMessage (opened (scripted [''071911#''])) '':GAS#'' (Until CHR ''#'') =
      (Inr ''071911#'', \<lparr>new_Alt = False, new_Az = False, written = ['':GAS#''],
         inbuf = [], device = scripted [''071911#'']\<rparr>)"
    by (simp add: send_scripted_first decode_utf8_def ascii_def)
  have l: "2 < length ''071911#''" by simp
  show ?thesis using status_predicates [OF h l] by simp
qed

text \<open>
  Claim C7, as the code has it. For a status reply of six digits and the terminator in
  which some digit has no entry in the table of its field, \<open>Get_StatusInfo\<close> with
  \<open>readable\<close> true fails with a \<open>KeyError\<close> and maps the digit to no default. With
  \<open>readable\<close> false it returns the six digits as they are, unchecked; the four
  predicates read the reply this way.
\<close>

theorem unmapped_digit_readable:
  assumes "SendMessage self '':GAS#'' (Until CHR ''#'') = (Inr status, s)"
    and "length status = 7"
    and "map_of gps_Msgs (status ! 0) = None \<or> map_of system_Msgs (status ! 1) = None
       \<or> map_of track_Msgs (status ! 2) = None \<or> map_of speed_Msgs (status ! 3) = None
       \<or> map_of time_Msgs (status ! 4) = None \<or> map_of hemi_Msgs (status ! 5) = None"
  shows "Get_StatusInfo self True = (Inl KeyError, s)
       \<and> Get_StatusInfo self False = (Inr (Packed (butlast status)), s)"
  using assms
  by (auto simp add: Get_StatusInfo_def decode_status_def lookup_field_def getitem_def
      dict_get_def split: option.splits sum.splits)

theorem unmapped_digit_readable_witness:
  "map_of system_Msgs (''091911#'' ! 1) = None
   \<and> fst (Get_StatusInfo (opened (scripted [''091911#''])) True) = Inl KeyError
   \<and> fst (Get_StatusInfo (opened (scripted [''091911#''])) False) = Inr (Packed ''091911'')"
proof -
  have h: "SendMessage (opened (scripted [''091911#''])) '':GAS#'' (Until CHR ''#'') =
      (Inr ''091911#'', \<lparr>new_Alt = False, new_Az = False, written = ['':GAS#''],
         inbuf = [], device = scripted [''091911#'']\<rparr>)"
    by (simp add: send_scripted_first decode_utf8_def ascii_def)
  have l: "length ''091911#'' = 7" by simp
  have u: "map_of system_Msgs (''091911#'' ! 1) = None" by (simp add: system_Msgs_def)
  have d: "map_of gps_Msgs (''091911#'' ! 0) = None
       \<or> map_of system_Msgs (''091911#'' ! 1) = None
       \<or> map_of track_Msgs (''091911#'' ! 2) = None
       \<or> map_of speed_Msgs (''091911#'' ! 3) = None
       \<or> map_of time_Msgs (''091911#'' ! 4) = None
       \<or> map_of hemi_Msgs (''091911#'' ! 5) = None"
    using u by blast
  show ?thesis using unmapped_digit_readable [OF h l d] u by simp
qed

text \<open>
  The claim as the specification states it fails on the predicates: the system digit 9
  is in no table, and \<open>Is_Stopped\<close> answers false without an error, as do the other
  three predicates.
\<close>

theorem unmapped_digit_predicate_counterexample:
  "map_of system_Msgs CHR ''9'' = None
   \<and> fst (Is_Stopped (opened (scripted [''091911#'']))) = Inr False
   \<and> fst (Is_Slewing (opened (scripted [''091911#'']))) = Inr False
   \<and> fst (Is_Homed (opened (scripted [''091911#'']))) = Inr False
   \<and> fst (Is_Tracking (opened (scripted [''091911#'']))) = Inr False"
proof -
  have h: "SendMessage (opened (scripted [''091911#''])) '':GAS#'' (Until CHR ''#'') =
      (Inr ''091911#'', \<lparr>new_Alt = False, new_Az = False, written = ['':GAS#''],
         inbuf = [], device = scripted [''091911#'']\<rparr>)"
    by (simp add: send_scripted_first decode_utf8_def ascii_def)
  have l: "2 < length ''091911#''" by simp
  show ?thesis
    using status_in_reply [OF h l]
    by (simp add: Is_Homed_def Is_Slewing_def Is_Stopped_def Is_Tracking_def system_Msgs_def)
qed

section \<open>Acknowledged commands\<close>

lemma acknowledge_eq:
  "acknowledge self cmd =
     ((case decode_utf8 (ack_byte self cmd) of Inl e \<Rightarrow> Inl e | Inr reply \<Rightarrow> py_int reply),
      after_ack self cmd)"
  by (simp add: acknowledge_def SendMessage_def serial_write_def serial_read_def ack_byte_def
      after_ack_def split: sum.splits)

lemma py_int_empty: "py_int [] = Inl ValueError"
  by (simp add: py_int_def strip_def digits_def)

lemma py_int_single: "py_int [c] = Inr 1 \<longleftrightarrow> c = CHR ''1''"
proof
  assume "c = CHR ''1''"
  then show "py_int [c] = Inr 1"
    by (simp add: py_int_def strip_def digits_def is_space_def is_digit_def digit_val_def)
next
  assume a: "py_int [c] = Inr 1"
  show "c = CHR ''1''"
  proof (cases "is_space c")
    case True
    then have "py_int [c] = Inl ValueError"
      by (simp add: py_int_def strip_def digits_def)
    with a show ?thesis by simp
  next
    case False
    then have s: "strip [c] = [c]" by (simp add: strip_def)
    show ?thesis
    proof (cases "c = CHR ''-'' \<or> c = CHR ''+''")
      case True
      then have "py_int [c] = Inl ValueError"
        using s by (auto simp add: py_int_def digits_def)
      with a show ?thesis by simp
    next
      case False
      then have "is_digit c \<and> digit_val c = 1"
        using a s by (auto simp add: py_int_def digits_def Let_def split: if_splits)
      then have "(of_char c :: nat) = 49"
        by (auto simp add: is_digit_def digit_val_def)
      then have "(of_char c :: nat) = of_char (CHR ''1'')" by simp
      then show ?thesis by (simp only: of_char_eq_iff)
    qed
  qed
qed

lemma acknowledge_one:
  "fst (acknowledge self cmd) = Inr 1 \<longleftrightarrow> ack_byte self cmd = ''1''"
proof -
  have len: "length (ack_byte self cmd) \<le> 1" by (simp add: ack_byte_def)
  show ?thesis
  proof (cases "ack_byte self cmd")
    case Nil
    then show ?thesis by (simp add: acknowledge_eq decode_utf8_def ascii_def py_int_empty)
  next
    case (Cons c cs)
    with len have cs: "cs = []" by simp
    show ?thesis
      using Cons cs py_int_single [of c]
      by (auto simp add: acknowledge_eq decode_utf8_def ascii_def)
  qed
qed

section \<open>The staged flags and the move\<close>

lemma after_ack_fields [simp]:
  "new_Alt (after_ack self cmd) = new_Alt self"
  "new_Az (after_ack self cmd) = new_Az self"
  "written (after_ack self cmd) = written self @ [cmd]"
  "device (after_ack self cmd) = device self"
  by (simp_all add: after_ack_def)

lemma ack_byte_flags [simp]:
  "ack_byte (self\<lparr>new_Alt := a\<rparr>) cmd = ack_byte self cmd"
  "ack_byte (self\<lparr>new_Az := b\<rparr>) cmd = ack_byte self cmd"
  by (simp_all add: ack_byte_def)

lemma acknowledge_snd [simp]: "snd (acknowledge self cmd) = after_ack self cmd"
  by (simp add: acknowledge_eq)

lemma acknowledge_not_assertion: "fst (acknowledge self cmd) \<noteq> Inl AssertionError"
  by (auto simp add: acknowledge_eq decode_utf8_def py_int_def Let_def split: sum.splits option.splits)

lemma Move_staged:
  "new_Alt self \<Longrightarrow> new_Az self \<Longrightarrow>
     Move self = acknowledge (self\<lparr>new_Alt := False, new_Az := False\<rparr>) '':MS#''"
  by (simp add: Move_def)

lemma Move_unstaged:
  "\<not> (new_Alt self \<and> new_Az self) \<Longrightarrow> Move self = (Inl AssertionError, self)"
  by (simp add: Move_def)

lemma Set_Altitude_flag:
  "new_Alt (snd (Set_Altitude self altitude units)) \<longleftrightarrow>
     new_Alt self \<or> (\<exists>alt. hundredths altitude units = Inr alt
                        \<and> ack_byte self (altitude_cmd alt) = ''1'')"
proof (cases "hundredths altitude units")
  case (Inl e)
  then show ?thesis by (simp add: Set_Altitude_def)
next
  case (Inr alt)
  obtain r s where a: "acknowledge self (altitude_cmd alt) = (r, s)" by force
  then have s: "s = after_ack self (altitude_cmd alt)"
    using acknowledge_snd [of self "altitude_cmd alt"] by simp
  have o: "r = Inr 1 \<longleftrightarrow> ack_byte self (altitude_cmd alt) = ''1''"
    using acknowledge_one [of self "altitude_cmd alt"] a by simp
  show ?thesis
    using Inr a s o by (cases r) (auto simp add: Set_Altitude_def)
qed

lemma Set_Azimuth_flag:
  "new_Az (snd (Set_Azimuth self azimuth units)) \<longleftrightarrow>
     new_Az self \<or> (\<exists>az. hundredths azimuth units = Inr az \<and> 0 \<le> az \<and> az \<le> 129600000
                        \<and> ack_byte self (azimuth_cmd az) = ''1'')"
proof (cases "hundredths azimuth units")
  case (Inl e)
  then show ?thesis by (simp add: Set_Azimuth_def)
next
  case (Inr az)
  obtain r s where a: "acknowledge self (azimuth_cmd az) = (r, s)" by force
  then have s: "s = after_ack self (azimuth_cmd az)"
    using acknowledge_snd [of self "azimuth_cmd az"] by simp
  have o: "r = Inr 1 \<longleftrightarrow> ack_byte self (azimuth_cmd az) = ''1''"
    using acknowledge_one [of self "azimuth_cmd az"] a by simp
  show ?thesis
    using Inr a s o by (cases r) (auto simp add: Set_Azimuth_def)
qed

text \<open>
  Claim C1. When both flags are set, \<open>_Move\<close> is the acknowledged \<open>:MS#\<close> command sent from
  the state in which both flags are already cleared: whatever the reply is, also one that
  cannot be read as an integer, both flags are false afterwards and \<open>:MS#\<close> is the one
  command written. When a flag is not set, \<open>_Move\<close> fails with the assertion error and
  leaves the object as it was, nothing written. A flag that was false is true after its
  set command exactly when the value could be converted (and, for the azimuth, passed the
  range assertion) and the one byte read in reply was the character 1.
\<close>

theorem move_commit:
  "(new_Alt self \<and> new_Az self \<longrightarrow>
      Move self = acknowledge (self\<lparr>new_Alt := False, new_Az := False\<rparr>) '':MS#''
      \<and> \<not> new_Alt (snd (Move self)) \<and> \<not> new_Az (snd (Move self))
      \<and> written (snd (Move self)) = written self @ ['':MS#''])
   \<and> (\<not> (new_Alt self \<and> new_Az self) \<longrightarrow> Move self = (Inl AssertionError, self))
   \<and> (new_Alt (snd (Set_Altitude self altitude units)) \<longleftrightarrow>
        new_Alt self \<or> (\<exists>alt. hundredths altitude units = Inr alt
                           \<and> ack_byte self (altitude_cmd alt) = ''1''))
   \<and> (new_Az (snd (Set_Azimuth self azimuth units)) \<longleftrightarrow>
        new_Az self \<or> (\<exists>az. hundredths azimuth units = Inr az \<and> 0 \<le> az \<and> az \<le> 129600000
                           \<and> ack_byte self (azimuth_cmd az) = ''1''))"
  using Set_Altitude_flag [of self altitude units] Set_Azimuth_flag [of self azimuth units]
  by (simp add: Move_staged Move_unstaged)

subsection \<open>Evaluation at the angles of the examples\<close>

lemma hundredths_80: "hundredths (PyInt 80) ''degrees'' = Inr 28800000"
  by code_simp

lemma hundredths_190: "hundredths (PyInt 190) ''degrees'' = Inr 68400000"
  by code_simp

lemma replicate_numeral: "replicate (numeral k) x = x # replicate (pred_numeral k) x"
  by (simp add: numeral_eq_Suc)

lemma altitude_cmd_80: "altitude_cmd 28800000 = '':Sa+28800000#''"
  by (simp add: altitude_cmd_def rjust_def str_int_def str_nat.simps)

lemma azimuth_cmd_190: "azimuth_cmd 68400000 = '':Sz068400000#''"
  by (simp add: azimuth_cmd_def rjust_def str_int_def str_nat.simps replicate_numeral)

theorem move_commit_witness:
  "Move (staged True True [] (scripted [''1''])) =
     (Inr 1, staged False False ['':MS#''] (scripted [''1'']))
   \<and> Move (staged True False [] (scripted [''1''])) =
     (Inl AssertionError, staged True False [] (scripted [''1'']))
   \<and> \<not> new_Alt (opened (scripted [''1'']))
   \<and> new_Alt (snd (Set_Altitude (opened (scripted [''1''])) (PyInt 80) ''degrees''))
   \<and> ack_byte (opened (scripted [''1''])) '':Sa+28800000#'' = ''1''
   \<and> \<not> new_Alt (snd (Set_Altitude (opened (scripted [''0''])) (PyInt 80) ''degrees''))"
proof -
  have a: "acknowledge (staged False False [] (scripted [''1''])) '':MS#'' =
      (Inr 1, staged False False ['':MS#''] (scripted [''1'']))"
    by (simp add: acknowledge_eq ack_byte_def after_ack_def staged_def scripted_def
        decode_utf8_def ascii_def py_int_single)
  have b1: "ack_byte (opened (scripted [''1''])) '':Sa+28800000#'' = ''1''"
    by (simp add: ack_byte_def opened_def scripted_def)
  have b0: "ack_byte (opened (scripted [''0''])) '':Sa+28800000#'' = ''0''"
    by (simp add: ack_byte_def opened_def scripted_def)
  have n: "\<not> new_Alt (opened (scripted [''1'']))" "\<not> new_Alt (opened (scripted [''0'']))"
    by (simp_all add: opened_def)
  show ?thesis
    using move_commit [of "staged True True [] (scripted [''1''])"]
      move_commit [of "staged True False [] (scripted [''1''])"]
      move_commit [of "opened (scripted [''1''])" "PyInt 80" "''degrees''"]
      move_commit [of "opened (scripted [''0''])" "PyInt 80" "''degrees''"]
      a b1 b0 n
    by (simp add: staged_def hundredths_80 altitude_cmd_80)
qed

subsection \<open>A failed commit, and a rejected move\<close>

lemma Set_Azimuth_Inr:
  assumes "Set_Azimuth self azimuth units = (Inr r, s1)"
  shows "\<exists>az. hundredths azimuth units = Inr az \<and> 0 \<le> az \<and> az \<le> 129600000
           \<and> fst (acknowledge self (azimuth_cmd az)) = Inr r
           \<and> s1 = (if r = 1 then (after_ack self (azimuth_cmd az))\<lparr>new_Az := True\<rparr>
                   else after_ack self (azimuth_cmd az))"
proof (cases "hundredths azimuth units")
  case (Inl e)
  with assms show ?thesis by (simp add: Set_Azimuth_def)
next
  case (Inr az)
  obtain r' s where a: "acknowledge self (azimuth_cmd az) = (r', s)" by force
  then have s: "s = after_ack self (azimuth_cmd az)"
    using acknowledge_snd [of self "azimuth_cmd az"] by simp
  show ?thesis
    using assms Inr a s
    by (cases r') (auto simp add: Set_Azimuth_def split: if_splits)
qed

lemma Set_Altitude_Inr:
  assumes "Set_Altitude self altitude units = (Inr r, s1)"
  shows "\<exists>alt. hundredths altitude units = Inr alt
           \<and> fst (acknowledge self (altitude_cmd alt)) = Inr r
           \<and> s1 = (if r = 1 then (after_ack self (altitude_cmd alt))\<lparr>new_Alt := True\<rparr>
                   else after_ack self (altitude_cmd alt))"
proof (cases "hundredths altitude units")
  case (Inl e)
  with assms show ?thesis by (simp add: Set_Altitude_def)
next
  case (Inr alt)
  obtain r' s where a: "acknowledge self (altitude_cmd alt) = (r', s)" by force
  then have s: "s = after_ack self (altitude_cmd alt)"
    using acknowledge_snd [of self "altitude_cmd alt"] by simp
  show ?thesis
    using assms Inr a s
    by (cases r') (auto simp add: Set_Altitude_def split: if_splits)
qed

text \<open>
  Claim C10. When exactly one flag is set, \<open>_Move\<close> fails with the assertion error and
  the object is unchanged, so the flag that was set stays set. If then only the other axis
  is staged and acknowledged with 1, both flags are set, the next \<open>_Move\<close> passes its
  assertion and sends \<open>:MS#\<close>, and since the failed commit only that one set command and
  \<open>:MS#\<close> have been written: the move uses the value staged before the failed commit.
\<close>

theorem failed_commit_keeps_flags:
  "(new_Alt self \<noteq> new_Az self \<longrightarrow> Move self = (Inl AssertionError, self))
   \<and> (new_Alt self \<and> \<not> new_Az self
        \<and> Set_Azimuth (snd (Move self)) azimuth units = (Inr 1, s1) \<longrightarrow>
          new_Alt s1 \<and> new_Az s1
          \<and> Move s1 = acknowledge (s1\<lparr>new_Alt := False, new_Az := False\<rparr>) '':MS#''
          \<and> (\<exists>az. hundredths azimuth units = Inr az
                \<and> written (snd (Move s1)) = written self @ [azimuth_cmd az, '':MS#'']))
   \<and> (\<not> new_Alt self \<and> new_Az self
        \<and> Set_Altitude (snd (Move self)) altitude units = (Inr 1, s2) \<longrightarrow>
          new_Alt s2 \<and> new_Az s2
          \<and> Move s2 = acknowledge (s2\<lparr>new_Alt := False, new_Az := False\<rparr>) '':MS#''
          \<and> (\<exists>alt. hundredths altitude units = Inr alt
                \<and> written (snd (Move s2)) = written self @ [altitude_cmd alt, '':MS#'']))"
proof (intro conjI impI)
  assume "new_Alt self \<noteq> new_Az self"
  then show "Move self = (Inl AssertionError, self)" by (auto simp add: Move_def)
next
  assume h: "new_Alt self \<and> \<not> new_Az self
      \<and> Set_Azimuth (snd (Move self)) azimuth units = (Inr 1, s1)"
  then have m: "Move self = (Inl AssertionError, self)" by (simp add: Move_def)
  with h have "Set_Azimuth self azimuth units = (Inr 1, s1)" by simp
  from Set_Azimuth_Inr [OF this] obtain az where
    az: "hundredths azimuth units = Inr az"
    and s1: "s1 = (after_ack self (azimuth_cmd az))\<lparr>new_Az := True\<rparr>" by auto
  from h s1 show "new_Alt s1" by simp
  from s1 show "new_Az s1" by simp
  from h s1 show "Move s1 = acknowledge (s1\<lparr>new_Alt := False, new_Az := False\<rparr>) '':MS#''"
    by (simp add: Move_def)
  from h s1 az show "\<exists>az. hundredths azimuth units = Inr az
      \<and> written (snd (Move s1)) = written self @ [azimuth_cmd az, '':MS#'']"
    by (simp add: Move_def)
next
  assume h: "\<not> new_Alt self \<and> new_Az self
      \<and> Set_Altitude (snd (Move self)) altitude units = (Inr 1, s2)"
  then have m: "Move self = (Inl AssertionError, self)" by (simp add: Move_def)
  with h have "Set_Altitude self altitude units = (Inr 1, s2)" by simp
  from Set_Altitude_Inr [OF this] obtain alt where
    alt: "hundredths altitude units = Inr alt"
    and s2: "s2 = (after_ack self (altitude_cmd alt))\<lparr>new_Alt := True\<rparr>" by auto
  from s2 show "new_Alt s2" by simp
  from h s2 show "new_Az s2" by simp
  from h s2 show "Move s2 = acknowledge (s2\<lparr>new_Alt := False, new_Az := False\<rparr>) '':MS#''"
    by (simp add: Move_def)
  from h s2 alt show "\<exists>alt. hundredths altitude units = Inr alt
      \<and> written (snd (Move s2)) = written self @ [altitude_cmd alt, '':MS#'']"
    by (simp add: Move_def)
qed

text \<open>
  Claim C2, as the code has it. When both axes are staged and the byte read in reply to
  \<open>:MS#\<close> is 0, \<open>Go_AltAz\<close> returns normally, with 0 as the move reply next to the two set
  replies; when the byte is 1 it returns 1 there. No error is raised for a rejected move:
  the caller tells it from an accepted one by the returned value. Both flags are cleared
  in either case.
\<close>

theorem rejected_move_is_returned:
  assumes "Set_AltAz self altitude azimuth units = (Inr set_Reply, s)"
    and "new_Alt s" and "new_Az s"
  shows "(ack_byte s '':MS#'' = ''0'' \<longrightarrow>
            fst (Go_AltAz self altitude azimuth units) = Inr (set_Reply, 0))
       \<and> (ack_byte s '':MS#'' = ''1'' \<longrightarrow>
            fst (Go_AltAz self altitude azimuth units) = Inr (set_Reply, 1))
       \<and> \<not> new_Alt (snd (Go_AltAz self altitude azimuth units))
       \<and> \<not> new_Az (snd (Go_AltAz self altitude azimuth units))
       \<and> written (snd (Go_AltAz self altitude azimuth units)) = written s @ ['':MS#'']"
proof -
  have z: "py_int ''0'' = Inr 0" "py_int ''1'' = Inr 1"
    by (simp_all add: py_int_def strip_def digits_def is_space_def is_digit_def digit_val_def)
  have m: "Move s = acknowledge (s\<lparr>new_Alt := False, new_Az := False\<rparr>) '':MS#''"
    using assms by (simp add: Move_def)
  show ?thesis
    using assms(1) m
    by (auto simp add: Go_AltAz_def acknowledge_eq decode_utf8_def ascii_def z
        split: sum.splits)
qed

lemma py_int_0: "py_int ''0'' = Inr 0"
  by (simp add: py_int_def strip_def digits_def is_space_def is_digit_def digit_val_def)

lemma py_int_1: "py_int ''1'' = Inr 1"
  by (simp add: py_int_def strip_def digits_def is_space_def is_digit_def digit_val_def)

lemmas run_defs =
  Go_AltAz_def Set_AltAz_def Set_Altitude_def Set_Azimuth_def Move_def
  acknowledge_eq ack_byte_def after_ack_def opened_def scripted_def decode_utf8_def ascii_def
  py_int_0 py_int_1

text \<open>
  The claim as the specification states it fails: with the move acknowledged by 0 the
  result of \<open>Go_AltAz\<close> is a value, not an error.
\<close>

theorem rejected_move_counterexample:
  "fst (Go_AltAz (opened (scripted [''1'', ''1'', ''0''])) (PyInt 80) (PyInt 190) ''degrees'')
     = Inr ((1, 1), 0)"
  by (simp add: run_defs hundredths_80 hundredths_190 altitude_cmd_80 azimuth_cmd_190)

theorem rejected_move_is_returned_witness:
  "Set_AltAz (opened (scripted [''1'', ''1'', ''0''])) (PyInt 80) (PyInt 190) ''degrees'' =
     (Inr (1, 1), staged True True ['':Sa+28800000#'', '':Sz068400000#'']
                    (scripted [''1'', ''1'', ''0'']))
   \<and> ack_byte (staged True True ['':Sa+28800000#'', '':Sz068400000#'']
                    (scripted [''1'', ''1'', ''0''])) '':MS#'' = ''0''
   \<and> fst (Go_AltAz (opened (scripted [''1'', ''1'', ''0''])) (PyInt 80) (PyInt 190)
           ''degrees'') = Inr ((1, 1), 0)
   \<and> written (snd (Go_AltAz (opened (scripted [''1'', ''1'', ''0''])) (PyInt 80) (PyInt 190)
           ''degrees'')) = ['':Sa+28800000#'', '':Sz068400000#'', '':MS#'']"
proof -
  have h: "Set_AltAz (opened (scripted [''1'', ''1'', ''0''])) (PyInt 80) (PyInt 190)
      ''degrees'' =
     (Inr (1, 1), staged True True ['':Sa+28800000#'', '':Sz068400000#'']
                    (scripted [''1'', ''1'', ''0'']))"
    by (simp add: run_defs staged_def hundredths_80 hundredths_190 altitude_cmd_80
        azimuth_cmd_190)
  have a: "new_Alt (staged True True ['':Sa+28800000#'', '':Sz068400000#'']
      (scripted [''1'', ''1'', ''0'']))" by (simp add: staged_def)
  have z: "new_Az (staged True True ['':Sa+28800000#'', '':Sz068400000#'']
      (scripted [''1'', ''1'', ''0'']))" by (simp add: staged_def)
  have b: "ack_byte (staged True True ['':Sa+28800000#'', '':Sz068400000#'']
      (scripted [''1'', ''1'', ''0''])) '':MS#'' = ''0''"
    by (simp add: ack_byte_def staged_def scripted_def)
  show ?thesis
    using rejected_move_is_returned [OF h a z] h b by (simp add: staged_def)
qed

theorem failed_commit_keeps_flags_witness:
  "Move (staged True False ['':Sa+28800000#''] (scripted [''1'', ''1'', ''1''])) =
     (Inl AssertionError, staged True False ['':Sa+28800000#''] (scripted [''1'', ''1'', ''1'']))
   \<and> Set_Azimuth (staged True False ['':Sa+28800000#''] (scripted [''1'', ''1'', ''1'']))
        (PyInt 190) ''degrees'' =
     (Inr 1, staged True True ['':Sa+28800000#'', '':Sz068400000#'']
        (scripted [''1'', ''1'', ''1'']))
   \<and> written (snd (Move (staged True True ['':Sa+28800000#'', '':Sz068400000#'']
        (scripted [''1'', ''1'', ''1''])))) =
       ['':Sa+28800000#'', '':Sz068400000#'', '':MS#'']"
proof -
  let ?self = "staged True False ['':Sa+28800000#''] (scripted [''1'', ''1'', ''1''])"
  let ?s1 = "staged True True ['':Sa+28800000#'', '':Sz068400000#'']
        (scripted [''1'', ''1'', ''1''])"
  have f: "new_Alt ?self \<noteq> new_Az ?self" "new_Alt ?self" "\<not> new_Az ?self"
    by (simp_all add: staged_def)
  have m: "Move ?self = (Inl AssertionError, ?self)"
    using failed_commit_keeps_flags [of ?self] f by simp
  have z: "Set_Azimuth ?self (PyInt 190) ''degrees'' = (Inr 1, ?s1)"
    by (simp add: run_defs staged_def hundredths_190 azimuth_cmd_190)
  have z': "Set_Azimuth (snd (Move ?self)) (PyInt 190) ''degrees'' = (Inr 1, ?s1)"
    using m z by simp
  have "\<exists>az. hundredths (PyInt 190) ''degrees'' = Inr az
      \<and> written (snd (Move ?s1)) = written ?self @ [azimuth_cmd az, '':MS#'']"
    using failed_commit_keeps_flags [of ?self "PyInt 190" "''degrees''" ?s1] f(2) f(3) z'
    by blast
  then have "written (snd (Move ?s1)) = ['':Sa+28800000#'', '':Sz068400000#'', '':MS#'']"
    by (simp add: hundredths_190 azimuth_cmd_190 staged_def)
  with m z show ?thesis by simp
qed

section \<open>The wire format and the range of a staged angle\<close>

lemma hundredths_neg_12_34:
  "hundredths (PyFloat (float_literal (- 1234) 2)) ''degrees'' = Inr (- 4442400)"
  by code_simp

lemma hundredths_12_34:
  "hundredths (PyFloat (float_literal 1234 2)) ''degrees'' = Inr 4442400"
  by code_simp

lemma hundredths_neg_1_arcsec: "hundredths (PyInt (- 1)) ''arcsec'' = Inr (- 100)"
  by code_simp

lemma hundredths_0: "hundredths (PyInt 0) ''degrees'' = Inr 0"
  by code_simp

lemma hundredths_360: "hundredths (PyInt 360) ''degrees'' = Inr 129600000"
  by code_simp

lemma hundredths_100: "hundredths (PyInt 100) ''degrees'' = Inr 36000000"
  by code_simp

lemma hundredths_361: "hundredths (PyInt 361) ''degrees'' = Inr 129960000"
  by code_simp

lemma altitude_cmd_examples:
  "altitude_cmd (- 4442400) = '':Sa-4442400#''"
  "altitude_cmd (- 100) = '':Sa0000-100#''"
  "altitude_cmd 4442400 = '':Sa+04442400#''"
  "altitude_cmd 0 = '':Sa+00000000#''"
  "altitude_cmd 36000000 = '':Sa+36000000#''"
  by (simp_all add: altitude_cmd_def rjust_def str_int_def str_nat.simps replicate_numeral)

lemma azimuth_cmd_360: "azimuth_cmd 129600000 = '':Sz129600000#''"
  by (simp add: azimuth_cmd_def rjust_def str_int_def str_nat.simps replicate_numeral)

lemma Set_Altitude_written:
  assumes "hundredths altitude units = Inr alt"
  shows "written (snd (Set_Altitude self altitude units)) = written self @ [altitude_cmd alt]"
proof -
  obtain r s where a: "acknowledge self (altitude_cmd alt) = (r, s)" by force
  then have s: "s = after_ack self (altitude_cmd alt)"
    using acknowledge_snd [of self "altitude_cmd alt"] by simp
  show ?thesis
    using assms a s by (cases r) (simp_all add: Set_Altitude_def)
qed

lemma Set_Azimuth_written:
  assumes "hundredths azimuth units = Inr az" and "0 \<le> az" and "az \<le> 129600000"
  shows "written (snd (Set_Azimuth self azimuth units)) = written self @ [azimuth_cmd az]"
proof -
  obtain r s where a: "acknowledge self (azimuth_cmd az) = (r, s)" by force
  then have s: "s = after_ack self (azimuth_cmd az)"
    using acknowledge_snd [of self "azimuth_cmd az"] by simp
  show ?thesis
    using assms a s by (cases r) (simp_all add: Set_Azimuth_def)
qed

text \<open>
  Claim C4, evaluated. Staging -12.34 degrees writes \<open>:Sa-4442400#\<close>, a sign and seven
  digits, and staging -1 arcsecond writes \<open>:Sa0000-100#\<close>, the padding zeros before the
  sign: \<open>str\<close> of a negative integer carries the sign, and \<open>rjust(8, "0")\<close> counts the sign
  in the width and pads on its left. Staging +12.34 degrees and 0 write a plus sign and
  eight digits, \<open>04442400\<close> and \<open>00000000\<close>.
\<close>

theorem negative_altitude_wire:
  "written (snd (Set_Altitude (opened (scripted [''1'']))
       (PyFloat (float_literal (- 1234) 2)) ''degrees'')) = ['':Sa-4442400#'']
   \<and> written (snd (Set_Altitude (opened (scripted [''1''])) (PyInt (- 1)) ''arcsec''))
       = ['':Sa0000-100#'']
   \<and> written (snd (Set_Altitude (opened (scripted [''1'']))
       (PyFloat (float_literal 1234 2)) ''degrees'')) = ['':Sa+04442400#'']
   \<and> written (snd (Set_Altitude (opened (scripted [''1''])) (PyInt 0) ''degrees''))
       = ['':Sa+00000000#'']"
  by (simp add: Set_Altitude_written hundredths_neg_12_34 hundredths_12_34
      hundredths_neg_1_arcsec hundredths_0 altitude_cmd_examples opened_def)

text \<open>
  Claim C5, as the code has it. The value in hundredths of an arcsecond is the angle after
  unit conversion, divided by 0.01 and truncated toward zero. An azimuth whose value is
  below 0 or above 129600000 fails with the assertion error before anything is formatted,
  and the object is unchanged, so nothing is written. An azimuth whose value is from 0 to
  129600000, both included, is formatted and written. An altitude is not range-checked:
  whenever its value can be computed, the command is formatted and written.
\<close>

theorem staging_range_check:
  "(hundredths azimuth units = Inr az \<and> (az < 0 \<or> 129600000 < az) \<longrightarrow>
      Set_Azimuth self azimuth units = (Inl AssertionError, self))
   \<and> (hundredths azimuth units = Inr az \<and> 0 \<le> az \<and> az \<le> 129600000 \<longrightarrow>
      written (snd (Set_Azimuth self azimuth units)) = written self @ [azimuth_cmd az])
   \<and> (hundredths altitude units = Inr alt \<longrightarrow>
      written (snd (Set_Altitude self altitude units)) = written self @ [altitude_cmd alt])"
proof (intro conjI impI)
  assume "hundredths azimuth units = Inr az \<and> (az < 0 \<or> 129600000 < az)"
  then show "Set_Azimuth self azimuth units = (Inl AssertionError, self)"
    by (auto simp add: Set_Azimuth_def)
next
  assume "hundredths azimuth units = Inr az \<and> 0 \<le> az \<and> az \<le> 129600000"
  then show "written (snd (Set_Azimuth self azimuth units)) = written self @ [azimuth_cmd az]"
    by (simp add: Set_Azimuth_written)
next
  assume "hundredths altitude units = Inr alt"
  then show "written (snd (Set_Altitude self altitude units)) = written self @ [altitude_cmd alt]"
    by (rule Set_Altitude_written)
qed

theorem staging_range_check_witness:
  "Set_Azimuth (opened (scripted [''1''])) (PyInt 361) ''degrees'' =
     (Inl AssertionError, opened (scripted [''1'']))
   \<and> written (snd (Set_Azimuth (opened (scripted [''1''])) (PyInt 190) ''degrees'')) =
       ['':Sz068400000#'']
   \<and> written (snd (Set_Altitude (opened (scripted [''1''])) (PyInt 80) ''degrees'')) =
       ['':Sa+28800000#'']"
  using staging_range_check [of "PyInt 361" "''degrees''" 129960000 "opened (scripted [''1''])"]
    staging_range_check [of "PyInt 190" "''degrees''" 68400000 "opened (scripted [''1''])"
      "PyInt 80" 28800000]
  by (simp add: hundredths_361 hundredths_190 hundredths_80 azimuth_cmd_190 altitude_cmd_80
      opened_def)

text \<open>
  The claim as the specification states it fails: an azimuth of exactly 360 degrees is
  written, and so is an altitude of 100 degrees.
\<close>

theorem staging_range_counterexample:
  "written (snd (Set_Azimuth (opened (scripted [''1''])) (PyInt 360) ''degrees'')) =
     ['':Sz129600000#'']
   \<and> written (snd (Set_Altitude (opened (scripted [''1''])) (PyInt 100) ''degrees'')) =
     ['':Sa+36000000#'']"
  by (simp add: Set_Altitude_written Set_Azimuth_written hundredths_360 hundredths_100
      azimuth_cmd_360 altitude_cmd_examples opened_def)

section \<open>The handshake\<close>

lemma SendMessage_written:
  "SendMessage self cmd e = (r, s) \<Longrightarrow> written s = written self @ [cmd]"
  by (cases e)
    (auto simp add: SendMessage_def serial_write_def serial_read_def serial_read_until_def
      Let_def)

text \<open>
  Claim C8. Let \<open>version\<close> and \<open>model\<close> be the replies read to the version and model
  queries. If \<open>version\<close> without its last character is not \<open>V1.00\<close>, or \<open>model\<close> is not
  \<open>5035\<close>, creation returns, with the assertion error, and the two queries are the only
  commands written.
\<close>

theorem handshake_mismatch_aborts:
  assumes "SendMessage self '':V#'' (Until CHR ''#'') = (Inr version, s1)"
    and "SendMessage s1 '':MountInfo#'' (Count 4) = (Inr model, s2)"
    and "butlast version \<noteq> ''V1.00'' \<or> model \<noteq> ''5035''"
  shows "init parse self = Some (Inl AssertionError, s2)
       \<and> written s2 = written self @ ['':V#'', '':MountInfo#'']"
proof -
  have i: "init parse self = Some (Inl AssertionError, s2)"
    using assms by (simp add: init_def)
  have w: "written s2 = written self @ ['':V#'', '':MountInfo#'']"
    using SendMessage_written [OF assms(1)] SendMessage_written [OF assms(2)] by simp
  from i w show ?thesis by simp
qed

theorem handshake_mismatch_aborts_witness:
  "init (\<lambda>t. True) (opened (scripted [''V1.00#'', ''5036''])) =
     Some (Inl AssertionError,
           staged False False ['':V#'', '':MountInfo#''] (scripted [''V1.00#'', ''5036'']))"
proof -
  have v: "SendMessage (opened (scripted [''V1.00#'', ''5036''])) '':V#'' (Until CHR ''#'') =
      (Inr ''V1.00#'', staged False False ['':V#''] (scripted [''V1.00#'', ''5036'']))"
    by (simp add: send_scripted_first decode_utf8_def ascii_def staged_def)
  have m: "SendMessage (staged False False ['':V#''] (scripted [''V1.00#'', ''5036'']))
      '':MountInfo#'' (Count 4) =
      (Inr ''5036'',
       staged False False ['':V#'', '':MountInfo#''] (scripted [''V1.00#'', ''5036'']))"
    by (simp add: SendMessage_def serial_write_def serial_read_def staged_def scripted_def
        decode_utf8_def ascii_def)
  have d: "butlast ''V1.00#'' \<noteq> ''V1.00'' \<or> ''5036'' \<noteq> ''5035''" by simp
  show ?thesis using handshake_mismatch_aborts [OF v m d] by simp
qed

section \<open>The blocking move\<close>

lemma py_int_alt: "py_int ''+28800000'' = Inr 28800000"
  by (simp add: py_int_def strip_def digits_def is_space_def is_digit_def digit_val_def)

lemma py_int_az: "py_int ''068400000'' = Inr 68400000"
  by (simp add: py_int_def strip_def digits_def is_space_def is_digit_def digit_val_def)

lemma times_0_01_alt: "int_times_0_01 28800000 = Inr (Finite 288000)"
  by code_simp

lemma times_0_01_az: "int_times_0_01 68400000 = Inr (Finite 684000)"
  by code_simp

lemma from_arcsec_alt: "from_arcsec ''degrees'' (Finite 288000) = Inr (PyFloat (Finite 80))"
  by code_simp

lemma from_arcsec_az: "from_arcsec ''degrees'' (Finite 684000) = Inr (PyFloat (Finite 190))"
  by code_simp

lemma parse_at_target:
  "parse_AltAz ''degrees'' ''+28800000068400000'' =
     Inr (PyFloat (Finite 80), PyFloat (Finite 190))"
  by (simp add: parse_AltAz_def py_int_alt py_int_az times_0_01_alt times_0_01_az
      from_arcsec_alt from_arcsec_az)

lemma close_to_80:
  "close_to (PyFloat (Finite 80)) (PyInt 80) (PyFloat (Finite lit_0_1)) = Inr True"
  by code_simp

lemma close_to_190:
  "close_to (PyFloat (Finite 190)) (PyInt 190) (PyFloat (Finite lit_0_1)) = Inr True"
  by code_simp

lemma go_at_target:
  "Go_AltAz (opened slewing_at_target) (PyInt 80) (PyInt 190) ''degrees'' =
     (Inr ((1, 1), 1),
      staged False False ['':Sa+28800000#'', '':Sz068400000#'', '':MS#''] slewing_at_target)"
  by (simp add: Go_AltAz_def Set_AltAz_def Set_Altitude_def Set_Azimuth_def Move_def
      acknowledge_eq ack_byte_def after_ack_def opened_def staged_def slewing_at_target_def
      by_command_def decode_utf8_def ascii_def py_int_1 hundredths_80 hundredths_190
      altitude_cmd_80 azimuth_cmd_190)

lemma at_target:
  "Is_At_AltAz
     (staged False False ['':Sa+28800000#'', '':Sz068400000#'', '':MS#''] slewing_at_target)
     (PyInt 80) (PyInt 190) (PyFloat (Finite lit_0_1)) ''degrees'' =
   (Inr True,
    staged False False ['':Sa+28800000#'', '':Sz068400000#'', '':MS#'', '':GAC#'']
      slewing_at_target)"
  by (simp add: Is_At_AltAz_def Get_AltAz_def units_Allowed_def SendMessage_def
      serial_write_def serial_read_until_def staged_def slewing_at_target_def by_command_def
      decode_utf8_def ascii_def parse_at_target close_to_80 close_to_190)

text \<open>
  Claim C3, evaluated. The mount \<open>slewing_at_target\<close> reports the target position and
  the system state slewing. \<open>Go_Blocking\<close> to 80 and 190 degrees returns after one position
  query; no status query is written, and in the state it returns in, \<open>Is_Stopped\<close> is
  false and \<open>Is_Slewing\<close> is true.
\<close>

theorem blocking_move_returns_while_slewing:
  "Go_Blocking (opened slewing_at_target) (PyInt 80) (PyInt 190) ''degrees'' =
     Some (Inr ((1, 1), 1),
           staged False False ['':Sa+28800000#'', '':Sz068400000#'', '':MS#'', '':GAC#'']
             slewing_at_target)
   \<and> fst (Is_Stopped
        (staged False False ['':Sa+28800000#'', '':Sz068400000#'', '':MS#'', '':GAC#'']
           slewing_at_target)) = Inr False
   \<and> fst (Is_Slewing
        (staged False False ['':Sa+28800000#'', '':Sz068400000#'', '':MS#'', '':GAC#'']
           slewing_at_target)) = Inr True"
proof -
  let ?s = "staged False False ['':Sa+28800000#'', '':Sz068400000#'', '':MS#'', '':GAC#'']
             slewing_at_target"
  have w: "Go_Blocking_wait
      (staged False False ['':Sa+28800000#'', '':Sz068400000#'', '':MS#''] slewing_at_target)
      (PyInt 80) (PyInt 190) = Some (Inr (), ?s)"
    by (subst Go_Blocking_wait.simps) (simp add: at_target bound_method_truth_def)
  have g: "Go_Blocking (opened slewing_at_target) (PyInt 80) (PyInt 190) ''degrees'' =
      Some (Inr ((1, 1), 1), ?s)"
    by (simp add: Go_Blocking_def go_at_target w)
  have q: "SendMessage ?s '':GAS#'' (Until CHR ''#'') =
      (Inr ''021911#'', ?s\<lparr>written := written ?s @ ['':GAS#'']\<rparr>)"
    by (simp add: SendMessage_def serial_write_def serial_read_until_def staged_def
        slewing_at_target_def by_command_def decode_utf8_def ascii_def)
  have l: "2 < length ''021911#''" by simp
  from g status_in_reply [OF q l] show ?thesis
    by (simp add: Is_Stopped_def Is_Slewing_def)
qed

section \<open>Rounding, and the unit converters there and back\<close>



lemma ilog2_le:
  assumes "q \<noteq> 0"
  shows "2 powi (ilog2 q) \<le> \<bar>q\<bar>"
proof -
  obtain a b where ab: "quotient_of \<bar>q\<bar> = (a, b)" by force
  have bpos: "0 < b" using ab by (rule quotient_of_denom_pos)
  have q: "\<bar>q\<bar> = of_int a / of_int b" using ab by (rule quotient_of_div)
  have qpos: "0 < \<bar>q\<bar>" using assms by simp
  have apos: "0 < a"
  proof (rule ccontr)
    assume "\<not> 0 < a"
    then have "of_int a \<le> (0::rat)" by simp
    then have "of_int a / of_int b \<le> (0::rat)"
      using bpos by (simp add: divide_le_0_iff)
    with q qpos show False by simp
  qed
  define k where "k = bitlen a - bitlen b"
  show ?thesis
  proof (cases "2 powi k \<le> \<bar>q\<bar>")
    case True
    then show ?thesis using ab by (simp add: ilog2_def k_def)
  next
    case False
    then have i: "ilog2 q = k - 1" using ab by (simp add: ilog2_def k_def)
    have la: "1 \<le> bitlen a" using apos by (simp add: bitlen_alt_def)
    have lb: "1 \<le> bitlen b" using bpos by (simp add: bitlen_alt_def)
    have a1: "(2::int) ^ nat (bitlen a - 1) \<le> a" using bitlen_bounds [OF apos] by simp
    have b1: "b < (2::int) ^ nat (bitlen b)" using bitlen_bounds [OF bpos] by simp
    have a2: "(2::rat) ^ nat (bitlen a - 1) \<le> of_int a"
    proof -
      have "(of_int ((2::int) ^ nat (bitlen a - 1)) :: rat) \<le> of_int a"
        using a1 by (simp only: of_int_le_iff)
      then show ?thesis by simp
    qed
    have b2: "(of_int b :: rat) \<le> 2 ^ nat (bitlen b)"
    proof -
      have "(of_int b :: rat) \<le> of_int ((2::int) ^ nat (bitlen b))"
        using b1 by (simp only: of_int_le_iff)
      then show ?thesis by simp
    qed
    have "(2::rat) powi (k - 1) = 2 powi ((bitlen a - 1) - bitlen b)"
      by (rule arg_cong [where f = "\<lambda>n. 2 powi n"]) (simp add: k_def)
    also have "\<dots> = 2 powi (bitlen a - 1) / 2 powi (bitlen b)"
      by (rule power_int_diff) simp
    also have "\<dots> = 2 ^ nat (bitlen a - 1) / 2 ^ nat (bitlen b)"
      using la lb by (simp add: power_int_def)
    also have "\<dots> \<le> of_int a / of_int b"
      using a2 b2 bpos apos by (intro frac_le) simp_all
    finally show ?thesis using i q by simp
  qed
qed

lemma round_half_even_err: "\<bar>of_int (round_half_even x) - x\<bar> \<le> 1 / 2"
proof -
  have "of_int \<lfloor>x\<rfloor> \<le> x" "x < of_int \<lfloor>x\<rfloor> + 1" by linarith+
  then show ?thesis
    by (auto simp add: round_half_even_def Let_def)
qed

lemma ilog2_upper:
  assumes "q \<noteq> 0" and "\<bar>q\<bar> \<le> 2 ^ n"
  shows "ilog2 q \<le> int n"
proof -
  have "(2::rat) powi (ilog2 q) \<le> 2 powi (int n)"
    using ilog2_le [OF assms(1)] assms(2) by simp
  then show ?thesis
    by (rule power_int_le_imp_le_exp [rotated]) simp_all
qed

lemma round_double_error:
  assumes "\<bar>q\<bar> \<le> M" and "M \<le> 2 ^ 1000"
  shows "\<exists>r. round_double q = Finite r \<and> \<bar>r - q\<bar> \<le> M * eps + tiny"
proof (cases "q = 0")
  case True
  have "0 \<le> M" using assms(1) by simp
  then have "0 \<le> M * eps + tiny" by (simp add: eps_def tiny_def)
  with True show ?thesis by (simp add: round_double_def)
next
  case False
  define e where "e = max (ilog2 q) (- 1022)"
  define ulp where "ulp = (2::rat) powi (e - 52)"
  define n where "n = round_half_even (q / ulp)"
  have "\<bar>q\<bar> \<le> 2 ^ 1000" using assms by simp
  then have "ilog2 q \<le> 1000" using ilog2_upper [OF False, of 1000] by simp
  then have e: "e \<le> 1000" by (simp add: e_def)
  have upos: "0 < ulp" by (simp add: ulp_def)
  have r: "round_double q = Finite (of_int n * ulp)"
    using False e by (simp add: round_double_def Let_def e_def [symmetric] ulp_def [symmetric]
        n_def [symmetric])
  have "\<bar>of_int n - q / ulp\<bar> \<le> 1 / 2" unfolding n_def by (rule round_half_even_err)
  then have "\<bar>of_int n - q / ulp\<bar> * ulp \<le> 1 / 2 * ulp"
    using upos by (intro mult_right_mono) simp_all
  moreover have "\<bar>of_int n - q / ulp\<bar> * ulp = \<bar>of_int n * ulp - q\<bar>"
  proof -
    have "\<bar>of_int n - q / ulp\<bar> * ulp = \<bar>(of_int n - q / ulp) * ulp\<bar>"
      using upos by (simp add: abs_mult)
    also have "(of_int n - q / ulp) * ulp = of_int n * ulp - q"
      using upos by (simp add: algebra_simps)
    finally show ?thesis .
  qed
  ultimately have err: "\<bar>of_int n * ulp - q\<bar> \<le> ulp / 2" by simp
  have "ulp / 2 \<le> M * eps + tiny"
  proof (cases "- 1022 \<le> ilog2 q")
    case True
    then have "e = ilog2 q" by (simp add: e_def)
    then have "ulp = 2 powi (ilog2 q) / 2 ^ 52"
      by (simp add: ulp_def power_int_diff)
    then have "ulp \<le> \<bar>q\<bar> / 2 ^ 52"
      using ilog2_le [OF False] by (simp add: divide_right_mono)
    then have "ulp / 2 \<le> \<bar>q\<bar> * eps" by (simp add: eps_def)
    also have "\<dots> \<le> M * eps" using assms(1) by (simp add: eps_def divide_right_mono)
    also have "\<dots> \<le> M * eps + tiny" by (simp add: tiny_def)
    finally show ?thesis .
  next
    case False
    then have "e = - 1022" by (simp add: e_def)
    then have "ulp = 2 powi (- 1074)" by (simp add: ulp_def)
    then have "ulp / 2 = tiny" by (simp add: tiny_def power_int_minus_divide)
    moreover have "0 \<le> M * eps" using assms(1) by (simp add: eps_def)
    ultimately show ?thesis by simp
  qed
  with err r show ?thesis by simp
qed

lemma round_half_even_int: "round_half_even (of_int z) = z"
  by (simp add: round_half_even_def)

lemma round_double_int:
  assumes "\<bar>i\<bar> < 2 ^ 53"
  shows "round_double (of_int i) = Finite (of_int i)"
proof (cases "i = 0")
  case True
  then show ?thesis by (simp add: round_double_def)
next
  case False
  define q :: rat where "q = of_int i"
  define e where "e = max (ilog2 q) (- 1022)"
  define m where "m = nat (52 - e)"
  have q0: "q \<noteq> 0" using False by (simp add: q_def)
  have "\<bar>q\<bar> < 2 ^ 53"
  proof -
    have "(of_int \<bar>i\<bar> :: rat) < of_int (2 ^ 53)" using assms by (simp only: of_int_less_iff)
    then show ?thesis by (simp add: q_def)
  qed
  then have "(2::rat) powi (ilog2 q) < 2 powi 53"
    using ilog2_le [OF q0] by simp
  then have "ilog2 q < 53"
    by (rule power_int_le_imp_less_exp [rotated]) simp_all
  then have e: "e \<le> 52" by (simp add: e_def)
  then have em: "e - 52 = - int m" by (simp add: m_def)
  have ulp: "(2::rat) powi (e - 52) = 1 / 2 ^ m"
    by (simp only: em power_int_minus_divide power_int_of_nat)
  have "q / (1 / 2 ^ m) = of_int (i * 2 ^ m)" by (simp add: q_def)
  then have n: "round_half_even (q / (1 / 2 ^ m)) = i * 2 ^ m"
    by (simp only: round_half_even_int)
  have "round_double q = Finite (of_int (i * 2 ^ m) * (1 / 2 ^ m))"
    using q0 e n by (simp add: round_double_def Let_def e_def [symmetric] ulp)
  then show ?thesis by (simp add: q_def)
qed

lemma finite_num_cases:
  assumes "finite_num x"
  obtains (int) i where "x = PyInt i" "num_val x = of_int i"
        | (float) q where "x = PyFloat (Finite q)" "num_val x = q"
  using assms
  by (cases x) (auto simp add: finite_num_def num_val_def split: pyfloat.splits)

lemma py_float_val:
  assumes "finite_num x" and "\<bar>num_val x\<bar> < 2 ^ 53"
  shows "py_float x = Inr (Finite (num_val x))"
using assms(1)
proof (cases rule: finite_num_cases)
  case (int i)
  have "(of_int \<bar>i\<bar> :: rat) < of_int (2 ^ 53)" using assms(2) int by simp
  then have "\<bar>i\<bar> < 2 ^ 53" by (simp only: of_int_less_iff)
  then show ?thesis using int by (simp add: py_float_def float_of_int_def round_double_int)
next
  case (float q)
  then show ?thesis by (simp add: py_float_def)
qed

lemma times_err:
  assumes "\<bar>q\<bar> \<le> M" and "0 \<le> c" and "M * c \<le> 2 ^ 1000"
  shows "\<exists>r. float_times (Finite q) c = Finite r \<and> \<bar>r - q * c\<bar> \<le> M * c * eps + tiny"
proof -
  have "\<bar>q * c\<bar> \<le> M * c"
    using assms(1) assms(2) by (simp add: abs_mult mult_right_mono)
  from round_double_error [OF this assms(3)] show ?thesis by (simp add: float_times_def)
qed

lemma over_err:
  assumes "\<bar>q\<bar> \<le> M" and "0 < c" and "M / c \<le> 2 ^ 1000"
  shows "\<exists>r. float_over (Finite q) c = Finite r \<and> \<bar>r - q / c\<bar> \<le> M / c * eps + tiny"
proof -
  have "\<bar>q / c\<bar> \<le> M / c"
    using assms(1) assms(2) by (simp add: divide_right_mono)
  from round_double_error [OF this assms(3)] show ?thesis by (simp add: float_over_def)
qed

lemma over_3600_err:
  assumes "finite_num x" and "\<bar>num_val x\<bar> \<le> M" and "M \<le> 2 ^ 1000"
  shows "\<exists>r. over_3600 x = Inr (PyFloat (Finite r))
           \<and> \<bar>r - num_val x / 3600\<bar> \<le> M / 3600 * eps + tiny"
proof -
  have m: "M / 3600 \<le> 2 ^ 1000"
  proof -
    have "0 \<le> M" using assms(2) by simp
    then have "M / 3600 \<le> M" by simp
    with assms(3) show ?thesis by simp
  qed
  have a: "\<bar>num_val x / 3600\<bar> \<le> M / 3600"
    using assms(2) by (simp add: divide_right_mono)
  from round_double_error [OF a m] obtain r where
    r: "round_double (num_val x / 3600) = Finite r"
       "\<bar>r - num_val x / 3600\<bar> \<le> M / 3600 * eps + tiny" by blast
  from assms(1) show ?thesis
  proof (cases rule: finite_num_cases)
    case (int i)
    with r show ?thesis by (simp add: over_3600_def)
  next
    case (float q)
    with r show ?thesis by (simp add: over_3600_def float_over_def)
  qed
qed

lemma times_3600_err:
  assumes "finite_num x" and "\<bar>num_val x\<bar> \<le> M" and "M * 3600 \<le> 2 ^ 1000"
  shows "finite_num (times_3600 x)
           \<and> \<bar>num_val (times_3600 x) - num_val x * 3600\<bar> \<le> M * 3600 * eps + tiny"
using assms(1)
proof (cases rule: finite_num_cases)
  case (int i)
  have "0 \<le> M" using assms(2) by simp
  then have "0 \<le> M * 3600 * eps + tiny" by (simp add: eps_def tiny_def)
  with int show ?thesis by (simp add: times_3600_def finite_num_def num_val_def)
next
  case (float q)
  have "\<bar>q\<bar> \<le> M" using assms(2) float by simp
  from times_err [OF this _ assms(3)] obtain r where
    "float_times (Finite q) 3600 = Finite r" "\<bar>r - q * 3600\<bar> \<le> M * 3600 * eps + tiny"
    by auto
  with float show ?thesis by (simp add: times_3600_def finite_num_def num_val_def)
qed

lemma math_radians_err:
  assumes "finite_num x" and "\<bar>num_val x\<bar> \<le> M" and "M < 2 ^ 53"
  shows "\<exists>r. math_radians x = Inr (PyFloat (Finite r))
           \<and> \<bar>r - num_val x * degToRad\<bar> \<le> M * degToRad * eps + tiny"
proof -
  have p: "py_float x = Inr (Finite (num_val x))"
    using assms by (intro py_float_val) simp_all
  have c: "0 \<le> degToRad" "degToRad \<le> 1" by (simp_all add: degToRad_def)
  have "0 \<le> M" using assms(2) by simp
  then have "M * degToRad \<le> M * 1" using c by (intro mult_left_mono) simp_all
  also have "\<dots> \<le> 2 ^ 53" using assms(3) by simp
  also have "\<dots> \<le> (2::rat) ^ 1000" by (rule power_increasing) simp_all
  finally have m: "M * degToRad \<le> 2 ^ 1000" .
  from times_err [OF assms(2) c(1) m] p show ?thesis by (simp add: math_radians_def)
qed

lemma math_degrees_err:
  assumes "finite_num x" and "\<bar>num_val x\<bar> \<le> M" and "M < 2 ^ 53"
  shows "\<exists>r. math_degrees x = Inr (PyFloat (Finite r))
           \<and> \<bar>r - num_val x * radToDeg\<bar> \<le> M * radToDeg * eps + tiny"
proof -
  have p: "py_float x = Inr (Finite (num_val x))"
    using assms by (intro py_float_val) simp_all
  have c: "0 \<le> radToDeg" "radToDeg \<le> 64" by (simp_all add: radToDeg_def)
  have "0 \<le> M" using assms(2) by simp
  then have "M * radToDeg \<le> M * 64" using c by (intro mult_left_mono) simp_all
  also have "\<dots> \<le> 2 ^ 53 * 2 ^ 6" using assms(3) by simp
  also have "\<dots> = (2::rat) ^ 59" by simp
  also have "\<dots> \<le> (2::rat) ^ 1000" by (rule power_increasing) simp_all
  finally have m: "M * radToDeg \<le> 2 ^ 1000" .
  from times_err [OF assms(2) c(1) m] p show ?thesis by (simp add: math_degrees_def)
qed

lemma small: "0 \<le> eps" "eps \<le> 1 / 1000000000000000" "0 \<le> tiny" "tiny \<le> 1 / 1000000000000000"
  by (simp_all add: eps_def tiny_def)

lemma finite_float [simp]:
  "finite_num (PyFloat (Finite r))" "num_val (PyFloat (Finite r)) = r"
  by (simp_all add: finite_num_def num_val_def)

lemma arcsec_degrees_arcsec:
  assumes "finite_num x" and "\<bar>num_val x\<bar> \<le> 1296000"
  shows "reproduces (36 / 10000) x (round_trip ArcSec_To_Degrees Degrees_To_Arcsec x)"
proof -
  from over_3600_err [OF assms, simplified] obtain r1 where
    r1: "over_3600 x = Inr (PyFloat (Finite r1))"
      and e1: "\<bar>r1 - num_val x / 3600\<bar> \<le> 360 * eps + tiny" by auto
  have b1: "\<bar>r1\<bar> \<le> 361" using e1 assms(2) small by linarith
  from times_3600_err [of "PyFloat (Finite r1)" 361] b1 have
    f2: "finite_num (times_3600 (PyFloat (Finite r1)))"
      and e2: "\<bar>num_val (times_3600 (PyFloat (Finite r1))) - r1 * 3600\<bar>
                 \<le> 361 * 3600 * eps + tiny" by simp_all
  have "\<bar>num_val (times_3600 (PyFloat (Finite r1))) - num_val x\<bar> \<le> 36 / 10000"
    using e1 e2 small by linarith
  with r1 f2 show ?thesis
    by (simp add: reproduces_def round_trip_def ArcSec_To_Degrees_def Degrees_To_Arcsec_def)
qed

lemma dr_val: "degToRad = 5030569068109113 / 288230376151711744"
  by (simp add: degToRad_def)

lemma rd_val: "radToDeg = 1007958012753983 / 17592186044416"
  by (simp add: radToDeg_def)

lemma degrees_arcsec_degrees:
  assumes "finite_num x" and "\<bar>num_val x\<bar> \<le> 1296000"
  shows "reproduces (1 / 1000000) x (round_trip Degrees_To_Arcsec ArcSec_To_Degrees x)"
proof -
  from times_3600_err [OF assms] have
    f1: "finite_num (times_3600 x)"
      and e1: "\<bar>num_val (times_3600 x) - num_val x * 3600\<bar> \<le> 1296000 * 3600 * eps + tiny"
    by simp_all
  have b1: "\<bar>num_val (times_3600 x)\<bar> \<le> 4665600001"
    using e1 assms(2) small by linarith
  from over_3600_err [OF f1 b1] obtain r2 where
    r2: "over_3600 (times_3600 x) = Inr (PyFloat (Finite r2))"
      and e2: "\<bar>r2 - num_val (times_3600 x) / 3600\<bar> \<le> 4665600001 / 3600 * eps + tiny"
    by auto
  have "\<bar>r2 - num_val x\<bar> \<le> 1 / 1000000"
    using e1 e2 small by linarith
  with r2 show ?thesis
    by (simp add: reproduces_def round_trip_def ArcSec_To_Degrees_def Degrees_To_Arcsec_def)
qed

lemma degrees_radians_degrees:
  assumes "finite_num x" and "\<bar>num_val x\<bar> \<le> 1296000"
  shows "reproduces (1 / 1000000) x (round_trip Degrees_To_Radians Radians_To_Degrees x)"
proof -
  from math_radians_err [OF assms] obtain r1 where
    r1: "math_radians x = Inr (PyFloat (Finite r1))"
      and e1: "\<bar>r1 - num_val x * degToRad\<bar> \<le> 1296000 * degToRad * eps + tiny" by auto
  have b1: "\<bar>r1\<bar> \<le> 22620"
    using e1 assms(2) small unfolding dr_val by linarith
  from math_degrees_err [of "PyFloat (Finite r1)" 22620] b1 obtain r2 where
    r2: "math_degrees (PyFloat (Finite r1)) = Inr (PyFloat (Finite r2))"
      and e2: "\<bar>r2 - r1 * radToDeg\<bar> \<le> 22620 * radToDeg * eps + tiny" by auto
  have "\<bar>r2 - num_val x\<bar> \<le> 1 / 1000000"
    using e1 e2 assms(2) small unfolding dr_val rd_val by linarith
  with r1 r2 show ?thesis
    by (simp add: reproduces_def round_trip_def Degrees_To_Radians_def Radians_To_Degrees_def)
qed

lemma radians_degrees_radians:
  assumes "finite_num x" and "\<bar>num_val x\<bar> \<le> 1296000"
  shows "reproduces (17 / 1000000000) x (round_trip Radians_To_Degrees Degrees_To_Radians x)"
proof -
  from math_degrees_err [OF assms] obtain r1 where
    r1: "math_degrees x = Inr (PyFloat (Finite r1))"
      and e1: "\<bar>r1 - num_val x * radToDeg\<bar> \<le> 1296000 * radToDeg * eps + tiny" by auto
  have b1: "\<bar>r1\<bar> \<le> 74300000"
    using e1 assms(2) small unfolding rd_val by linarith
  from math_radians_err [of "PyFloat (Finite r1)" 74300000] b1 obtain r2 where
    r2: "math_radians (PyFloat (Finite r1)) = Inr (PyFloat (Finite r2))"
      and e2: "\<bar>r2 - r1 * degToRad\<bar> \<le> 74300000 * degToRad * eps + tiny" by auto
  have "\<bar>r2 - num_val x\<bar> \<le> 17 / 1000000000"
    using e1 e2 assms(2) small unfolding dr_val rd_val by linarith
  with r1 r2 show ?thesis
    by (simp add: reproduces_def round_trip_def Degrees_To_Radians_def Radians_To_Degrees_def)
qed

lemma arcsec_radians_arcsec:
  assumes "finite_num x" and "\<bar>num_val x\<bar> \<le> 1296000"
  shows "reproduces (36 / 10000) x (round_trip ArcSec_To_Radians Radians_To_Arcsec x)"
proof -
  from over_3600_err [OF assms, simplified] obtain r1 where
    r1: "over_3600 x = Inr (PyFloat (Finite r1))"
      and e1: "\<bar>r1 - num_val x / 3600\<bar> \<le> 360 * eps + tiny" by auto
  have b1: "\<bar>r1\<bar> \<le> 361" using e1 assms(2) small by linarith
  from math_radians_err [of "PyFloat (Finite r1)" 361] b1 obtain r2 where
    r2: "math_radians (PyFloat (Finite r1)) = Inr (PyFloat (Finite r2))"
      and e2: "\<bar>r2 - r1 * degToRad\<bar> \<le> 361 * degToRad * eps + tiny" by auto
  have b2: "\<bar>r2\<bar> \<le> 7" using e2 b1 small unfolding dr_val by linarith
  from math_degrees_err [of "PyFloat (Finite r2)" 7] b2 obtain r3 where
    r3: "math_degrees (PyFloat (Finite r2)) = Inr (PyFloat (Finite r3))"
      and e3: "\<bar>r3 - r2 * radToDeg\<bar> \<le> 7 * radToDeg * eps + tiny" by auto
  have b3: "\<bar>r3\<bar> \<le> 402" using e3 b2 small unfolding rd_val by linarith
  from times_3600_err [of "PyFloat (Finite r3)" 402] b3 have
    f4: "finite_num (times_3600 (PyFloat (Finite r3)))"
      and e4: "\<bar>num_val (times_3600 (PyFloat (Finite r3))) - r3 * 3600\<bar>
                 \<le> 402 * 3600 * eps + tiny" by simp_all
  have "\<bar>num_val (times_3600 (PyFloat (Finite r3))) - num_val x\<bar> \<le> 36 / 10000"
    using e1 e2 e3 e4 assms(2) small unfolding dr_val rd_val by linarith
  with r1 r2 r3 f4 show ?thesis
    by (simp add: reproduces_def round_trip_def ArcSec_To_Radians_def Radians_To_Arcsec_def)
qed

lemma radians_arcsec_radians:
  assumes "finite_num x" and "\<bar>num_val x\<bar> \<le> 1296000"
  shows "reproduces (17 / 1000000000) x (round_trip Radians_To_Arcsec ArcSec_To_Radians x)"
proof -
  from math_degrees_err [OF assms] obtain r1 where
    r1: "math_degrees x = Inr (PyFloat (Finite r1))"
      and e1: "\<bar>r1 - num_val x * radToDeg\<bar> \<le> 1296000 * radToDeg * eps + tiny" by auto
  have b1: "\<bar>r1\<bar> \<le> 74300000"
    using e1 assms(2) small unfolding rd_val by linarith
  from times_3600_err [of "PyFloat (Finite r1)" 74300000] b1 have
    f2: "finite_num (times_3600 (PyFloat (Finite r1)))"
      and e2: "\<bar>num_val (times_3600 (PyFloat (Finite r1))) - r1 * 3600\<bar>
                 \<le> 74300000 * 3600 * eps + tiny" by simp_all
  have b2: "\<bar>num_val (times_3600 (PyFloat (Finite r1)))\<bar> \<le> 267500000000"
    using e2 b1 small by linarith
  from over_3600_err [OF f2 b2] obtain r3 where
    r3: "over_3600 (times_3600 (PyFloat (Finite r1))) = Inr (PyFloat (Finite r3))"
      and e3: "\<bar>r3 - num_val (times_3600 (PyFloat (Finite r1))) / 3600\<bar>
                 \<le> 267500000000 / 3600 * eps + tiny" by auto
  have b3: "\<bar>r3\<bar> \<le> 74400000" using e3 b2 small by linarith
  from math_radians_err [of "PyFloat (Finite r3)" 74400000] b3 obtain r4 where
    r4: "math_radians (PyFloat (Finite r3)) = Inr (PyFloat (Finite r4))"
      and e4: "\<bar>r4 - r3 * degToRad\<bar> \<le> 74400000 * degToRad * eps + tiny" by auto
  have "\<bar>r4 - num_val x\<bar> \<le> 17 / 1000000000"
    using e1 e2 e3 e4 assms(2) small unfolding dr_val rd_val by linarith
  with r1 r3 r4 show ?thesis
    by (simp add: reproduces_def round_trip_def ArcSec_To_Radians_def Radians_To_Arcsec_def)
qed

text \<open>
  Claim C9. Let \<open>x\<close> be an \<open>int\<close> or a finite float of magnitude at most 1296000 (360
  degrees in arcseconds; far more than a turn in the other units). Each of the six round
  trips through the converters raises nothing and returns a finite number within
  \<open>10\<^sup>-\<^sup>6\<close> degree of \<open>x\<close>, in the unit of \<open>x\<close>: 0.0036 arcsecond, \<open>10\<^sup>-\<^sup>6\<close> degree,
  \<open>1.7 \<times> 10\<^sup>-\<^sup>8\<close> radian (which is below \<open>10\<^sup>-\<^sup>6\<close> degree). The converters are functions
  of their argument alone.
\<close>

theorem unit_round_trips:
  assumes "finite_num x" and "\<bar>num_val x\<bar> \<le> 1296000"
  shows "reproduces (36 / 10000) x (round_trip ArcSec_To_Degrees Degrees_To_Arcsec x)
       \<and> reproduces (36 / 10000) x (round_trip ArcSec_To_Radians Radians_To_Arcsec x)
       \<and> reproduces (1 / 1000000) x (round_trip Degrees_To_Arcsec ArcSec_To_Degrees x)
       \<and> reproduces (1 / 1000000) x (round_trip Degrees_To_Radians Radians_To_Degrees x)
       \<and> reproduces (17 / 1000000000) x (round_trip Radians_To_Arcsec ArcSec_To_Radians x)
       \<and> reproduces (17 / 1000000000) x (round_trip Radians_To_Degrees Degrees_To_Radians x)"
  using arcsec_degrees_arcsec [OF assms] arcsec_radians_arcsec [OF assms]
    degrees_arcsec_degrees [OF assms] degrees_radians_degrees [OF assms]
    radians_arcsec_radians [OF assms] radians_degrees_radians [OF assms]
  by blast

theorem unit_round_trips_witness:
  "finite_num (PyFloat (float_literal 1234 2))
   \<and> \<bar>num_val (PyFloat (float_literal 1234 2))\<bar> \<le> 1296000
   \<and> reproduces (1 / 1000000) (PyFloat (float_literal 1234 2))
        (round_trip Degrees_To_Radians Radians_To_Degrees (PyFloat (float_literal 1234 2)))
   \<and> reproduces (36 / 10000) (PyInt 190)
        (round_trip ArcSec_To_Radians Radians_To_Arcsec (PyInt 190))"
proof -
  have v: "float_literal 1234 2 = Finite (3473401212609495 / 281474976710656)"
    by code_simp
  have f: "finite_num (PyFloat (float_literal 1234 2))" by (simp add: v)
  have b: "\<bar>num_val (PyFloat (float_literal 1234 2))\<bar> \<le> 1296000" by (simp add: v)
  have fi: "finite_num (PyInt 190)" by (simp add: finite_num_def)
  have bi: "\<bar>num_val (PyInt 190)\<bar> \<le> 1296000" by (simp add: num_val_def)
  show ?thesis
    using unit_round_trips [OF f b] unit_round_trips [OF fi bi] f b by blast
qed

end
